theory Spec2Isabelle
  imports Main "HOL-Library.Sublist"
begin

section \<open>Go strings as byte lists\<close>

text \<open>
  A Go \<^verbatim>\<open>string\<close> is a sequence of bytes; it is modelled as \<^typ>\<open>string\<close>, a list of
  8-bit characters. The functions of package \<^verbatim>\<open>strings\<close> that the guards call are written
  out below. Every call site of \<^verbatim>\<open>strings.Split\<close> and \<^verbatim>\<open>strings.Contains\<close> in the
  program passes a one-byte separator (\<^verbatim>\<open>","\<close>, \<^verbatim>\<open>"|"\<close>, \<^verbatim>\<open>"&"\<close>), so the separator is a
  \<^typ>\<open>char\<close>.
\<close>

definition HasPrefix :: "string \<Rightarrow> string \<Rightarrow> bool" where
  "HasPrefix s pre \<longleftrightarrow> length pre \<le> length s \<and> take (length pre) s = pre"

definition HasSuffix :: "string \<Rightarrow> string \<Rightarrow> bool" where
  "HasSuffix s suf \<longleftrightarrow> length suf \<le> length s \<and> drop (length s - length suf) s = suf"

definition Contains :: "string \<Rightarrow> char \<Rightarrow> bool" where
  "Contains s sep \<longleftrightarrow> sep \<in> set s"

text \<open>
  \<^verbatim>\<open>strings.Split(s, sep)\<close> cuts at every occurrence of the separator and keeps empty
  pieces; a string without the separator (the empty string too) gives the one-element
  slice holding the string itself. The last branch of the \<open>case\<close> is never taken, since
  the result always has at least one element.
\<close>

fun Split :: "string \<Rightarrow> char \<Rightarrow> string list" where
  "Split [] sep = [[]]"
| "Split (c # cs) sep =
     (if c = sep then [] # Split cs sep
      else (case Split cs sep of
              p # ps \<Rightarrow> (c # p) # ps
            | [] \<Rightarrow> [[c]]))"

text \<open>
  \<^verbatim>\<open>strings.Join(elems, sep)\<close> with a one-byte separator.
\<close>

fun JoinStrings :: "string list \<Rightarrow> char \<Rightarrow> string" where
  "JoinStrings [] sep = []"
| "JoinStrings [e] sep = e"
| "JoinStrings (e # es) sep = e @ sep # JoinStrings es sep"

text \<open>
  \<^verbatim>\<open>strings.TrimSpace\<close> removes leading and trailing white space as defined by Unicode.
  On bytes that is: the six ASCII space characters, and the UTF-8 encodings of U+0085,
  U+00A0, U+1680, U+2000 to U+200A, U+2028, U+2029, U+202F, U+205F and U+3000. A byte
  sequence that is not valid UTF-8 decodes to U+FFFD, which is not a space, so trimming
  stops there.
\<close>

definition spaceSeqs :: "string list" where
  "spaceSeqs =
     [[CHR 0x09], [CHR 0x0A], [CHR 0x0B], [CHR 0x0C], [CHR 0x0D], [CHR 0x20],
      [CHR 0xC2, CHR 0x85], [CHR 0xC2, CHR 0xA0],
      [CHR 0xE1, CHR 0x9A, CHR 0x80],
      [CHR 0xE2, CHR 0x80, CHR 0x80], [CHR 0xE2, CHR 0x80, CHR 0x81],
      [CHR 0xE2, CHR 0x80, CHR 0x82], [CHR 0xE2, CHR 0x80, CHR 0x83],
      [CHR 0xE2, CHR 0x80, CHR 0x84], [CHR 0xE2, CHR 0x80, CHR 0x85],
      [CHR 0xE2, CHR 0x80, CHR 0x86], [CHR 0xE2, CHR 0x80, CHR 0x87],
      [CHR 0xE2, CHR 0x80, CHR 0x88], [CHR 0xE2, CHR 0x80, CHR 0x89],
      [CHR 0xE2, CHR 0x80, CHR 0x8A],
      [CHR 0xE2, CHR 0x80, CHR 0xA8], [CHR 0xE2, CHR 0x80, CHR 0xA9],
      [CHR 0xE2, CHR 0x80, CHR 0xAF],
      [CHR 0xE2, CHR 0x81, CHR 0x9F],
      [CHR 0xE3, CHR 0x80, CHR 0x80]]"

definition leadingSpace :: "string \<Rightarrow> nat" where
  "leadingSpace s = (case find (HasPrefix s) spaceSeqs of None \<Rightarrow> 0 | Some w \<Rightarrow> length w)"

definition trailingSpace :: "string \<Rightarrow> nat" where
  "trailingSpace s = (case find (HasSuffix s) spaceSeqs of None \<Rightarrow> 0 | Some w \<Rightarrow> length w)"

lemma leadingSpace_le: "leadingSpace s \<le> length s"
  by (auto simp: leadingSpace_def HasPrefix_def split: option.splits dest!: find_Some_iff[THEN iffD1])

lemma trailingSpace_le: "trailingSpace s \<le> length s"
  by (auto simp: trailingSpace_def HasSuffix_def split: option.splits dest!: find_Some_iff[THEN iffD1])

function TrimLeftSpace :: "string \<Rightarrow> string" where
  "TrimLeftSpace s =
     (if leadingSpace s = 0 then s else TrimLeftSpace (drop (leadingSpace s) s))"
  by pat_completeness auto
termination
proof (relation "measure length")
  show "wf (measure length)" by simp
next
  fix s :: string
  assume "leadingSpace s \<noteq> 0"
  moreover have "leadingSpace s \<le> length s" by (rule leadingSpace_le)
  ultimately show "(drop (leadingSpace s) s, s) \<in> measure length" by simp
qed

function TrimRightSpace :: "string \<Rightarrow> string" where
  "TrimRightSpace s =
     (if trailingSpace s = 0 then s
      else TrimRightSpace (take (length s - trailingSpace s) s))"
  by pat_completeness auto
termination
proof (relation "measure length")
  show "wf (measure length)" by simp
next
  fix s :: string
  assume "trailingSpace s \<noteq> 0"
  moreover have "trailingSpace s \<le> length s" by (rule trailingSpace_le)
  ultimately show "(take (length s - trailingSpace s) s, s) \<in> measure length" by simp
qed

declare TrimLeftSpace.simps [simp del]
declare TrimRightSpace.simps [simp del]

definition TrimSpace :: "string \<Rightarrow> string" where
  "TrimSpace s = TrimRightSpace (TrimLeftSpace s)"

subsection \<open>Facts about the string functions\<close>

lemma HasPrefix_iff_prefix: "HasPrefix s pre \<longleftrightarrow> prefix pre s"
  unfolding HasPrefix_def
proof
  assume "length pre \<le> length s \<and> take (length pre) s = pre"
  then have "take (length pre) s = pre" by simp
  then show "prefix pre s" by (metis take_is_prefix)
next
  assume "prefix pre s"
  then obtain r where "s = pre @ r" by (auto simp: prefix_def)
  then show "length pre \<le> length s \<and> take (length pre) s = pre" by simp
qed

lemma HasPrefix_Nil: "HasPrefix s []"
  by (simp add: HasPrefix_def)

lemma Split_not_Nil: "Split s sep \<noteq> []"
  by (induction s) (auto split: list.splits)

lemma Split_length_sum:
  "length (concat (Split s sep)) + length (Split s sep) = Suc (length s)"
proof (induction s)
  case Nil
  show ?case by simp
next
  case (Cons c cs)
  show ?case
  proof (cases "c = sep")
    case True
    with Cons show ?thesis by simp
  next
    case False
    obtain p ps where ps: "Split cs sep = p # ps"
      using Split_not_Nil [of cs sep] by (cases "Split cs sep") auto
    with Cons False show ?thesis by simp
  qed
qed

lemma Split_two_parts: "sep \<in> set s \<Longrightarrow> 2 \<le> length (Split s sep)"
proof (induction s)
  case Nil
  then show ?case by simp
next
  case (Cons c cs)
  obtain p ps where ps: "Split cs sep = p # ps"
    using Split_not_Nil [of cs sep] by (cases "Split cs sep") auto
  show ?case
  proof (cases "c = sep")
    case True
    with ps show ?thesis by simp
  next
    case False
    with Cons.prems have "sep \<in> set cs" by simp
    from Cons.IH [OF this] ps False show ?thesis by simp
  qed
qed

lemma length_le_concat: "p \<in> set ps \<Longrightarrow> length p \<le> length (concat ps)"
  by (induction ps) auto

lemma Split_part_shorter:
  assumes "sep \<in> set s" and "p \<in> set (Split s sep)"
  shows "length p < length s"
proof -
  have "length p \<le> length (concat (Split s sep))"
    using assms(2) by (rule length_le_concat)
  moreover have "2 \<le> length (Split s sep)"
    using assms(1) by (rule Split_two_parts)
  moreover have "length (concat (Split s sep)) + length (Split s sep) = Suc (length s)"
    by (rule Split_length_sum)
  ultimately show ?thesis by linarith
qed

lemma TrimLeftSpace_length: "length (TrimLeftSpace s) \<le> length s"
proof (induction s rule: TrimLeftSpace.induct)
  case (1 s)
  show ?case
  proof (cases "leadingSpace s = 0")
    case True
    then show ?thesis by (simp add: TrimLeftSpace.simps [of s])
  next
    case False
    from 1 [OF False] have "length (TrimLeftSpace (drop (leadingSpace s) s)) \<le> length s"
      by simp
    with False show ?thesis by (simp add: TrimLeftSpace.simps [of s])
  qed
qed

lemma TrimRightSpace_length: "length (TrimRightSpace s) \<le> length s"
proof (induction s rule: TrimRightSpace.induct)
  case (1 s)
  show ?case
  proof (cases "trailingSpace s = 0")
    case True
    then show ?thesis by (simp add: TrimRightSpace.simps [of s])
  next
    case False
    from 1 [OF False]
    have "length (TrimRightSpace (take (length s - trailingSpace s) s)) \<le> length s"
      by simp
    with False show ?thesis by (simp add: TrimRightSpace.simps [of s])
  qed
qed

lemma TrimSpace_length: "length (TrimSpace s) \<le> length s"
  unfolding TrimSpace_def
  using TrimRightSpace_length [of "TrimLeftSpace s"] TrimLeftSpace_length [of s]
  by linarith

lemma TrimSpace_Nil: "TrimSpace [] = []"
  using TrimSpace_length [of "[]"] by simp

section \<open>The command allowlist\<close>

text \<open>
  \<^verbatim>\<open>CommandServer.isAllowedCommand\<close> (package \<^verbatim>\<open>command\<close>). The receiver is read only
  through \<^verbatim>\<open>cs.config.allowedCommands\<close>, which is the first argument here. The first loop
  returns \<^verbatim>\<open>true\<close> as soon as an entry is a prefix of the whole command line; the two
  later loops return \<^verbatim>\<open>false\<close> at the first part that is refused and \<^verbatim>\<open>true\<close> when no
  part is.
\<close>

function isAllowedCommand :: "string list \<Rightarrow> string \<Rightarrow> bool" where
  "isAllowedCommand allowedCommands command =
     (if list_ex (\<lambda>allowed. HasPrefix command allowed) allowedCommands then True
      else if Contains command (CHR ''|'') then
        list_all (\<lambda>part. isAllowedCommand allowedCommands (TrimSpace part))
          (Split command (CHR ''|''))
      else if Contains command (CHR ''&'') then
        list_all (\<lambda>part. isAllowedCommand allowedCommands (TrimSpace part))
          (Split command (CHR ''&''))
      else False)"
  by pat_completeness auto
termination
proof (relation "measure (\<lambda>(allowedCommands, command). length command)")
  show "wf (measure (\<lambda>(allowedCommands, command). length command))" by simp
next
  fix allowedCommands :: "string list" and command part :: string
  assume "Contains command (CHR ''|'')" and "part \<in> set (Split command (CHR ''|''))"
  then have "length part < length command"
    by (simp add: Contains_def Split_part_shorter)
  with TrimSpace_length [of part]
  show "((allowedCommands, TrimSpace part), (allowedCommands, command))
      \<in> measure (\<lambda>(allowedCommands, command). length command)" by simp
next
  fix allowedCommands :: "string list" and command part :: string
  assume "Contains command (CHR ''&'')" and "part \<in> set (Split command (CHR ''&''))"
  then have "length part < length command"
    by (simp add: Contains_def Split_part_shorter)
  with TrimSpace_length [of part]
  show "((allowedCommands, TrimSpace part), (allowedCommands, command))
      \<in> measure (\<lambda>(allowedCommands, command). length command)" by simp
qed

declare isAllowedCommand.simps [simp del]

lemma isAllowedCommand_prefix:
  "allowed \<in> set allowedCommands \<Longrightarrow> HasPrefix command allowed \<Longrightarrow>
     isAllowedCommand allowedCommands command"
  by (subst isAllowedCommand.simps) (auto simp: list_ex_iff)

lemma isAllowedCommand_no_prefix:
  assumes "\<not> list_ex (\<lambda>allowed. HasPrefix command allowed) allowedCommands"
  shows "isAllowedCommand allowedCommands command =
     (if Contains command (CHR ''|'') then
        list_all (\<lambda>part. isAllowedCommand allowedCommands (TrimSpace part))
          (Split command (CHR ''|''))
      else if Contains command (CHR ''&'') then
        list_all (\<lambda>part. isAllowedCommand allowedCommands (TrimSpace part))
          (Split command (CHR ''&''))
      else False)"
  using assms by (subst isAllowedCommand.simps) simp

section \<open>The operating system, as the program sees it\<close>

text \<open>
  The guards and the configuration checks read the operating system through
  \<^verbatim>\<open>os.Getwd\<close> (inside \<^verbatim>\<open>filepath.Abs\<close>), \<^verbatim>\<open>os.Stat\<close>, \<^verbatim>\<open>filepath.EvalSymlinks\<close>,
  \<^verbatim>\<open>os.ReadFile\<close> and \<^verbatim>\<open>os.TempDir\<close>. What these calls answer is the record \<open>os_env\<close>: one snapshot of the
  machine. An error value carries what the program asks of it: whether
  \<^verbatim>\<open>os.IsNotExist\<close> holds, and its message.
\<close>

datatype os_error = OSError (IsNotExist: bool) (Message: string)

record FileInfo =
  Size :: int
  IsDir :: bool

record os_env =
  Getwd :: "os_error + string"
  Stat :: "string \<Rightarrow> os_error + FileInfo"
  EvalSymlinks :: "string \<Rightarrow> os_error + string"
  ReadFile :: "string \<Rightarrow> os_error + string"
  TempDir :: string

text \<open>
  The errors that loading a configuration returns, one constructor per
  \<^verbatim>\<open>fmt.Errorf\<close> of the source.
\<close>

datatype config_error =
    TypeMismatch string
  | NoAllowedCommands
  | PromptFileUnreadable string os_error
  | ResolveFailed string os_error
  | AccessFailed string os_error
  | NotADirectory string

text \<open>
  A value of the JSON object handed to \<^verbatim>\<open>LoadConfig\<close>. Both configurations have string
  fields only; \<open>JOther\<close> stands for a JSON number, boolean, array or object, none of
  which \<^verbatim>\<open>reflect\<close> converts to a string. JSON \<^verbatim>\<open>null\<close>, on which \<^verbatim>\<open>MergeJSONToStruct\<close>
  panics, is left out.
\<close>

datatype json_value = JString string | JOther

section \<open>The command configuration\<close>

record CommandConfig =
  PromptFile :: string
  prompt :: string
  AllowedCommand :: string
  allowedCommands :: "string list"

definition allowedCmdDefault :: "string list" where
  "allowedCmdDefault =
     [''ls'', ''cat'', ''echo'', ''pwd'', ''head'', ''tail'', ''grep'', ''find'', ''stat'', ''df'',
      ''du'', ''free'', ''top'', ''ps'', ''uptime'', ''who'', ''w'', ''last'', ''uname'', ''hostname'',
      ''ifconfig'', ''netstat'', ''ping'', ''traceroute'', ''route'', ''ip'', ''ss'', ''lsof'', ''vmstat'',
      ''iostat'', ''mpstat'', ''sar'', ''uptime'', ''cut'', ''sort'', ''uniq'', ''wc'', ''awk'', ''sed'',
      ''diff'', ''cmp'', ''comm'', ''file'', ''basename'', ''dirname'', ''chmod'', ''chown'', ''curl'',
      ''nslookup'', ''dig'', ''host'', ''ssh'', ''scp'', ''sftp'', ''ftp'', ''wget'', ''tar'', ''gzip'',
      ''scutil'', ''networksetup, git'', ''cd'']"

definition NewCommandConfig :: CommandConfig where
  "NewCommandConfig =
     \<lparr>PromptFile = [], prompt = [],
      AllowedCommand = JoinStrings allowedCmdDefault (CHR '',''),
      allowedCommands = allowedCmdDefault\<rparr>"

text \<open>
  \<^verbatim>\<open>CommandConfig.Check\<close>. The text of \<^verbatim>\<open>CommandPromptDefault\<close> plays no part in any
  decision and is a parameter. The counter starts at the length of the list and loses
  one for every empty entry; the list itself is left as it is.
\<close>

definition CommandConfig_Check ::
  "os_env \<Rightarrow> string \<Rightarrow> CommandConfig \<Rightarrow> config_error + CommandConfig" where
  "CommandConfig_Check env CommandPromptDefault cc =
     (let cc1 = cc\<lparr>prompt := CommandPromptDefault\<rparr>;
          cnt = fold (\<lambda>cmd cnt. if cmd = [] then cnt - 1 else cnt)
                  (allowedCommands cc1) (int (length (allowedCommands cc1)))
      in if cnt \<le> 0 then Inl NoAllowedCommands
         else if PromptFile cc1 \<noteq> [] then
           (case ReadFile env (PromptFile cc1) of
              Inl err \<Rightarrow> Inl (PromptFileUnreadable (PromptFile cc1) err)
            | Inr read \<Rightarrow> Inr (cc1\<lparr>prompt := read\<rparr>))
         else Inr cc1)"

text \<open>
  \<^verbatim>\<open>utils.MergeJSONToStruct\<close> on a \<^verbatim>\<open>CommandConfig\<close>: the two fields with a JSON tag
  take the value stored under their tag, and a value that is not a string is a type
  mismatch. Go visits the keys of the map in no fixed order; with several mismatches
  the model reports the one of the first field.
\<close>

definition MergeJSONToStruct_CommandConfig ::
  "CommandConfig \<Rightarrow> (string \<rightharpoonup> json_value) \<Rightarrow> config_error + CommandConfig" where
  "MergeJSONToStruct_CommandConfig cc jsonMap =
     (case jsonMap ''prompt_file'' of
        Some JOther \<Rightarrow> Inl (TypeMismatch ''prompt_file'')
      | pf \<Rightarrow>
        (case jsonMap ''allowed_command'' of
           Some JOther \<Rightarrow> Inl (TypeMismatch ''allowed_command'')
         | ac \<Rightarrow>
           Inr (cc\<lparr>PromptFile := (case pf of Some (JString v) \<Rightarrow> v | _ \<Rightarrow> PromptFile cc),
                   AllowedCommand := (case ac of Some (JString v) \<Rightarrow> v | _ \<Rightarrow> AllowedCommand cc)\<rparr>)))"

text \<open>\<^verbatim>\<open>CommandServer.LoadConfig\<close>.\<close>

definition CommandServer_LoadConfig ::
  "os_env \<Rightarrow> string \<Rightarrow> CommandConfig \<Rightarrow> (string \<rightharpoonup> json_value) \<Rightarrow>
     config_error + CommandConfig" where
  "CommandServer_LoadConfig env CommandPromptDefault cc jsonData =
     (case MergeJSONToStruct_CommandConfig cc jsonData of
        Inl err \<Rightarrow> Inl err
      | Inr cc1 \<Rightarrow>
          CommandConfig_Check env CommandPromptDefault
            (cc1\<lparr>allowedCommands := Split (AllowedCommand cc1) (CHR '','')\<rparr>))"

text \<open>
  An operating system on which nothing exists: every call fails. It serves where a
  concrete snapshot is needed and the answer does not depend on it.
\<close>

definition emptyOS :: os_env where
  "emptyOS =
     \<lparr>Getwd = Inl (OSError True ''getwd: no such file or directory''),
      Stat = (\<lambda>p. Inl (OSError True (''stat '' @ p @ '': no such file or directory''))),
      EvalSymlinks = (\<lambda>p. Inl (OSError True (''lstat '' @ p @ '': no such file or directory''))),
      ReadFile = (\<lambda>p. Inl (OSError True (''open '' @ p @ '': no such file or directory''))),
      TempDir = ''/tmp''\<rparr>"

lemma count_empty_fold:
  "fold (\<lambda>cmd cnt. if cmd = [] then cnt - 1 else cnt) cmds (n :: int) =
     n - int (length (filter (\<lambda>cmd. cmd = []) cmds))"
  by (induction cmds arbitrary: n) auto

lemma count_nonempty_pos:
  assumes "e \<in> set cmds" and "e \<noteq> []"
  shows "length (filter (\<lambda>cmd. cmd = []) cmds) < length cmds"
proof -
  have "filter (\<lambda>cmd. cmd = []) cmds \<noteq> cmds"
    using assms by (metis (mono_tags, lifting) filter_id_conv)
  then show ?thesis
    using length_filter_le [of "\<lambda>cmd. cmd = []" cmds]
    by (metis filter_True length_filter_less linorder_not_less nat_less_le)
qed

section \<open>Paths\<close>

text \<open>
  Package \<^verbatim>\<open>path/filepath\<close> on a Unix system, where the separator is \<^verbatim>\<open>/\<close> and there are
  no volume names. \<^verbatim>\<open>Clean\<close> works on the elements between separators: empty elements
  and \<^verbatim>\<open>.\<close> are dropped, \<^verbatim>\<open>..\<close> removes the element before it, is dropped at the root,
  and is kept at the start of a path that is not rooted. An empty result is \<^verbatim>\<open>.\<close>.
\<close>

fun cleanElems :: "bool \<Rightarrow> string list \<Rightarrow> string list \<Rightarrow> string list" where
  "cleanElems rooted out [] = out"
| "cleanElems rooted out (e # es) =
     (if e = [] \<or> e = ''.'' then cleanElems rooted out es
      else if e = ''..'' then
        (if out \<noteq> [] \<and> last out \<noteq> ''..'' then cleanElems rooted (butlast out) es
         else if rooted then cleanElems rooted out es
         else cleanElems rooted (out @ [''..'']) es)
      else cleanElems rooted (out @ [e]) es)"

definition Clean :: "string \<Rightarrow> string" where
  "Clean path =
     (if path = [] then ''.''
      else
        let rooted = HasPrefix path ''/'';
            out = cleanElems rooted [] (Split path (CHR ''/''));
            res = (if rooted then ''/'' else []) @ JoinStrings out (CHR ''/'')
        in if res = [] then ''.'' else res)"

definition IsAbs :: "string \<Rightarrow> bool" where
  "IsAbs path = HasPrefix path ''/''"

text \<open>
  \<^verbatim>\<open>filepath.Dir\<close>: everything up to and including the last separator, cleaned.
\<close>

definition Dir :: "string \<Rightarrow> string" where
  "Dir path = Clean (rev (dropWhile (\<lambda>c. c \<noteq> CHR ''/'') (rev path)))"

text \<open>
  \<^verbatim>\<open>filepath.Join\<close>: leading empty elements are ignored, the rest is joined with the
  separator and cleaned.
\<close>

fun Join :: "string list \<Rightarrow> string" where
  "Join [] = []"
| "Join (e # es) = (if e \<noteq> [] then Clean (JoinStrings (e # es) (CHR ''/'')) else Join es)"

text \<open>
  \<^verbatim>\<open>filepath.Abs\<close>: an absolute path is cleaned; any other path is joined to the working
  directory, and the call fails when the working directory cannot be read.
\<close>

definition Abs :: "os_env \<Rightarrow> string \<Rightarrow> os_error + string" where
  "Abs env path =
     (if IsAbs path then Inr (Clean path)
      else (case Getwd env of
              Inl err \<Rightarrow> Inl err
            | Inr wd \<Rightarrow> Inr (Join [wd, path])))"

text \<open>
  The rooted path with the given elements, and the elements that a cleaned rooted path
  is made of: not empty, not \<^verbatim>\<open>.\<close> or \<^verbatim>\<open>..\<close>, and free of separators.
\<close>

definition elemsPath :: "string list \<Rightarrow> string" where
  "elemsPath elems = CHR ''/'' # JoinStrings elems (CHR ''/'')"

definition properElem :: "string \<Rightarrow> bool" where
  "properElem e \<longleftrightarrow> e \<noteq> [] \<and> e \<noteq> ''.'' \<and> e \<noteq> ''..'' \<and> CHR ''/'' \<notin> set e"

definition plainElem :: "string \<Rightarrow> bool" where
  "plainElem e \<longleftrightarrow> e \<noteq> [] \<and> CHR ''/'' \<notin> set e"

section \<open>The filesystem configuration\<close>

text \<open>
  \<^verbatim>\<open>FileSystemConfig\<close>. Its fields \<^verbatim>\<open>PromptFile\<close> and \<^verbatim>\<open>prompt\<close> carry the prefix \<open>fs\<close>
  here, the plain names being those of \<^verbatim>\<open>CommandConfig\<close>.
\<close>

record FileSystemConfig =
  fsPromptFile :: string
  fsPrompt :: string
  AllowedDir :: string
  allowedDirs :: "string list"
  CachePath :: string

text \<open>
  \<^verbatim>\<open>allowedDirsDefault\<close> is \<^verbatim>\<open>os.TempDir()\<close>. \<^verbatim>\<open>NewFileSystemConfig\<close> splits its argument,
  then assigns the empty string to it and tests that string.
\<close>

definition allowedDirsDefault :: "os_env \<Rightarrow> string" where
  "allowedDirsDefault env = TempDir env"

definition NewFileSystemConfig :: "os_env \<Rightarrow> string \<Rightarrow> FileSystemConfig" where
  "NewFileSystemConfig env path =
     (let paths = Split path (CHR '','');
          path1 = [];
          (path2, paths2) =
            (if TrimSpace path1 = [] then (allowedDirsDefault env, [allowedDirsDefault env])
             else (path1, paths))
      in \<lparr>fsPromptFile = [], fsPrompt = [],
          AllowedDir = path2, allowedDirs = paths2, CachePath = path2\<rparr>)"

text \<open>
  The configuration a new \<^verbatim>\<open>FilesystemServer\<close> holds: \<^verbatim>\<open>NewFilesystemServer\<close> passes the
  \<^verbatim>\<open>data\<close> directory under the base path of the global configuration.
\<close>

definition NewFilesystemServer_config :: "os_env \<Rightarrow> string \<Rightarrow> FileSystemConfig" where
  "NewFilesystemServer_config env BasePath =
     (let userDataDir = Join [BasePath, ''data'']
      in NewFileSystemConfig env userDataDir)"

text \<open>
  \<^verbatim>\<open>FileSystemConfig.Check\<close>. The loop over \<^verbatim>\<open>fc.allowedDirs\<close> is \<open>normalizeDirs\<close>, with
  the slice \<^verbatim>\<open>normalized\<close> as its accumulator; it stops at the first entry that fails.
\<close>

fun normalizeDirs :: "os_env \<Rightarrow> string list \<Rightarrow> string list \<Rightarrow> config_error + string list" where
  "normalizeDirs env normalized [] = Inr normalized"
| "normalizeDirs env normalized (dir # dirs) =
     (case Abs env (TrimSpace dir) of
        Inl err \<Rightarrow> Inl (ResolveFailed dir err)
      | Inr absPath \<Rightarrow>
         (case Stat env absPath of
            Inl err \<Rightarrow> Inl (AccessFailed absPath err)
          | Inr info \<Rightarrow>
              if \<not> IsDir info then Inl (NotADirectory absPath)
              else normalizeDirs env (normalized @ [Clean absPath @ ''/'']) dirs))"

definition FileSystemConfig_Check ::
  "os_env \<Rightarrow> string \<Rightarrow> FileSystemConfig \<Rightarrow> config_error + FileSystemConfig" where
  "FileSystemConfig_Check env FileSystemPromptDefault fc =
     (case normalizeDirs env [] (allowedDirs fc) of
        Inl err \<Rightarrow> Inl err
      | Inr normalized \<Rightarrow>
          let fc1 = fc\<lparr>fsPrompt := FileSystemPromptDefault, allowedDirs := normalized\<rparr>
          in if fsPromptFile fc1 \<noteq> [] then
               (case ReadFile env (fsPromptFile fc1) of
                  Inl err \<Rightarrow> Inl (PromptFileUnreadable (fsPromptFile fc1) err)
                | Inr read \<Rightarrow> Inr (fc1\<lparr>fsPrompt := read\<rparr>))
             else Inr fc1)"

text \<open>
  \<^verbatim>\<open>mergeJSONToStruct\<close> on a \<^verbatim>\<open>FileSystemConfig\<close>, and \<^verbatim>\<open>FilesystemServer.LoadConfig\<close>.
\<close>

definition MergeJSONToStruct_FileSystemConfig ::
  "FileSystemConfig \<Rightarrow> (string \<rightharpoonup> json_value) \<Rightarrow> config_error + FileSystemConfig" where
  "MergeJSONToStruct_FileSystemConfig fc jsonMap =
     (case jsonMap ''prompt_file'' of
        Some JOther \<Rightarrow> Inl (TypeMismatch ''prompt_file'')
      | pf \<Rightarrow>
        (case jsonMap ''allowed_dir'' of
           Some JOther \<Rightarrow> Inl (TypeMismatch ''allowed_dir'')
         | ad \<Rightarrow>
           (case jsonMap ''cache_path'' of
              Some JOther \<Rightarrow> Inl (TypeMismatch ''cache_path'')
            | cp \<Rightarrow>
              Inr (fc\<lparr>fsPromptFile := (case pf of Some (JString v) \<Rightarrow> v | _ \<Rightarrow> fsPromptFile fc),
                      AllowedDir := (case ad of Some (JString v) \<Rightarrow> v | _ \<Rightarrow> AllowedDir fc),
                      CachePath := (case cp of Some (JString v) \<Rightarrow> v | _ \<Rightarrow> CachePath fc)\<rparr>))))"

definition FilesystemServer_LoadConfig ::
  "os_env \<Rightarrow> string \<Rightarrow> FileSystemConfig \<Rightarrow> (string \<rightharpoonup> json_value) \<Rightarrow>
     config_error + FileSystemConfig" where
  "FilesystemServer_LoadConfig env FileSystemPromptDefault fc jsonData =
     (case MergeJSONToStruct_FileSystemConfig fc jsonData of
        Inl err \<Rightarrow> Inl err
      | Inr fc1 \<Rightarrow>
          FileSystemConfig_Check env FileSystemPromptDefault
            (fc1\<lparr>allowedDirs := Split (AllowedDir fc1) (CHR '','')\<rparr>))"

section \<open>The path guard\<close>

text \<open>
  \<^verbatim>\<open>FilesystemServer.isPathInAllowedDirs\<close> and \<^verbatim>\<open>FilesystemServer.validatePath\<close>. The
  receiver is read only through \<^verbatim>\<open>fss.config\<close>. The errors of \<^verbatim>\<open>validatePath\<close> are the
  five messages of the source, named after the rejection kinds of the specification,
  and the error of \<^verbatim>\<open>EvalSymlinks\<close> that is handed on unchanged:

  \<^item> \<open>InvalidPath\<close>: \<^verbatim>\<open>invalid path: ...\<close>
  \<^item> \<open>OutsideAllowedRoots\<close>: \<^verbatim>\<open>access denied - path outside allowed directories: ...\<close>
  \<^item> \<open>SymlinkError\<close>: the error of \<^verbatim>\<open>EvalSymlinks\<close> when it is not a not-exist error
  \<^item> \<open>ParentMissing\<close>: \<^verbatim>\<open>parent directory does not exist: ...\<close>
  \<^item> \<open>ParentOutsideAllowedRoots\<close>: \<^verbatim>\<open>access denied - parent directory outside allowed directories\<close>
  \<^item> \<open>SymlinkEscapesRoot\<close>: \<^verbatim>\<open>access denied - symlink target outside allowed directories\<close>
\<close>

datatype path_error =
    InvalidPath os_error
  | OutsideAllowedRoots string
  | SymlinkError os_error
  | ParentMissing string
  | ParentOutsideAllowedRoots
  | SymlinkEscapesRoot

definition isPathInAllowedDirs :: "os_env \<Rightarrow> FileSystemConfig \<Rightarrow> string \<Rightarrow> bool" where
  "isPathInAllowedDirs env config path =
     (case Abs env path of
        Inl err \<Rightarrow> False
      | Inr absPath \<Rightarrow>
          let absPath1 =
                (if \<not> HasSuffix absPath ''/'' then
                   (case Stat env absPath of
                      Inr info \<Rightarrow>
                        if \<not> IsDir info then Dir absPath @ ''/'' else absPath @ ''/''
                    | Inl err \<Rightarrow> absPath @ ''/'')
                 else absPath)
          in list_ex (\<lambda>dir. HasPrefix absPath1 dir) (allowedDirs config))"

definition validatePath :: "os_env \<Rightarrow> FileSystemConfig \<Rightarrow> string \<Rightarrow> path_error + string" where
  "validatePath env config requestedPath =
     (case Abs env requestedPath of
        Inl err \<Rightarrow> Inl (InvalidPath err)
      | Inr absPath \<Rightarrow>
          if \<not> isPathInAllowedDirs env config absPath then Inl (OutsideAllowedRoots absPath)
          else
            (case EvalSymlinks env absPath of
               Inl err \<Rightarrow>
                 if \<not> IsNotExist err then Inl (SymlinkError err)
                 else
                   let parent = Dir absPath
                   in (case EvalSymlinks env parent of
                         Inl err1 \<Rightarrow> Inl (ParentMissing parent)
                       | Inr realParent \<Rightarrow>
                           if \<not> isPathInAllowedDirs env config realParent
                           then Inl ParentOutsideAllowedRoots
                           else Inr absPath)
             | Inr realPath \<Rightarrow>
                 if \<not> isPathInAllowedDirs env config realPath then Inl SymlinkEscapesRoot
                 else Inr realPath))"

section \<open>The tool handlers\<close>

text \<open>
  The result of a tool call, \<^verbatim>\<open>mcp.CallToolResult\<close>: a list of contents and the error
  flag. A content is a text or an embedded text resource with its URI, MIME type and
  text. \<^verbatim>\<open>mcp.NewToolResultText\<close> and \<^verbatim>\<open>mcp.NewToolResultError\<close> build a result with one
  text, the second with the error flag set.
\<close>

datatype mcp_Content =
    TextContent string
  | EmbeddedResource string string string

record CallToolResult =
  Content :: "mcp_Content list"
  IsError :: bool

definition NewToolResultText :: "string \<Rightarrow> CallToolResult" where
  "NewToolResultText text = \<lparr>Content = [TextContent text], IsError = False\<rparr>"

definition NewToolResultError :: "string \<Rightarrow> CallToolResult" where
  "NewToolResultError text = \<lparr>Content = [TextContent text], IsError = True\<rparr>"

text \<open>
  Modelled from the spec: the helpers \<^verbatim>\<open>CallToolResult\<close> and \<^verbatim>\<open>CallToolResultErr\<close> of the
  service base that the filesystem handlers call are not among the sources. A handler
  "returns a structured error" on a rejection: \<open>CallToolResultErr\<close> is a result with the
  message as its text and the error flag set, \<open>CallToolResultText\<close> (the helper
  \<^verbatim>\<open>CallToolResult\<close>) the same without the flag.
\<close>

definition CallToolResultText :: "string \<Rightarrow> CallToolResult" where
  "CallToolResultText text = \<lparr>Content = [TextContent text], IsError = False\<rparr>"

definition CallToolResultErr :: "string \<Rightarrow> CallToolResult" where
  "CallToolResultErr text = \<lparr>Content = [TextContent text], IsError = True\<rparr>"

definition pathToResourceURI :: "string \<Rightarrow> string" where
  "pathToResourceURI path = ''file://'' @ path"

text \<open>The message of an error of \<^verbatim>\<open>validatePath\<close>, as \<^verbatim>\<open>%v\<close> prints it.\<close>

fun Error :: "path_error \<Rightarrow> string" where
  "Error (InvalidPath err) = ''invalid path: '' @ Message err"
| "Error (OutsideAllowedRoots absPath) =
     ''access denied - path outside allowed directories: '' @ absPath"
| "Error (SymlinkError err) = Message err"
| "Error (ParentMissing parent) = ''parent directory does not exist: '' @ parent"
| "Error ParentOutsideAllowedRoots =
     ''access denied - parent directory outside allowed directories''"
| "Error SymlinkEscapesRoot =
     ''access denied - symlink target outside allowed directories''"

text \<open>A number as \<^verbatim>\<open>%d\<close> prints it.\<close>

function showNat :: "nat \<Rightarrow> string" where
  "showNat n =
     (if n < 10 then [char_of (48 + n)]
      else showNat (n div 10) @ [char_of (48 + n mod 10)])"
  by pat_completeness auto
termination
  by (relation "measure id") auto

declare showNat.simps [simp del]

definition showInt :: "int \<Rightarrow> string" where
  "showInt i = (if i < 0 then CHR ''-'' # showNat (nat (- i)) else showNat (nat i))"

text \<open>
  The handlers change the machine. Its state is a value of a type \<open>'w\<close>; the calls that
  read it answer from the snapshot \<open>view\<close> of that state, and \<^verbatim>\<open>os.MkdirAll\<close>,
  \<^verbatim>\<open>os.WriteFile\<close>, \<^verbatim>\<open>os.Rename\<close> and \<^verbatim>\<open>ExecCommand\<close> (which spawns the process, and is
  not among the sources) return an error or a value and the next state. File modes are
  constants and left out; so is what the handlers write to the logger.
\<close>

record 'w os_ops =
  view :: "'w \<Rightarrow> os_env"
  MkdirAll :: "string \<Rightarrow> 'w \<Rightarrow> os_error option \<times> 'w"
  WriteFile :: "string \<Rightarrow> string \<Rightarrow> 'w \<Rightarrow> os_error option \<times> 'w"
  Rename :: "string \<Rightarrow> string \<Rightarrow> 'w \<Rightarrow> os_error option \<times> 'w"
  ExecCommand :: "string \<Rightarrow> 'w \<Rightarrow> (os_error + string) \<times> 'w"

text \<open>
  \<^verbatim>\<open>CommandServer.handleExecuteCommand\<close> (package \<^verbatim>\<open>command\<close>), and
  \<^verbatim>\<open>FilesystemServer.handleWriteFile\<close>, \<^verbatim>\<open>handleCreateDirectory\<close> and \<^verbatim>\<open>handleMoveFile\<close>.
  The arguments of a request are a map from names to JSON values; an argument that
  is missing or not a string fails the type assertion.
\<close>

definition handleExecuteCommand ::
  "'w os_ops \<Rightarrow> CommandConfig \<Rightarrow> (string \<rightharpoonup> json_value) \<Rightarrow> 'w \<Rightarrow> CallToolResult \<times> 'w" where
  "handleExecuteCommand sys config args w =
     (case args ''command'' of
        Some (JString command) \<Rightarrow>
          if \<not> isAllowedCommand (allowedCommands config) command then
            (NewToolResultError
               (''Error: Command '' @ [CHR 0x27] @ command @ [CHR 0x27] @ '' is not allowed''), w)
          else
            (case ExecCommand sys command w of
               (Inl err, w1) \<Rightarrow>
                 (NewToolResultError (''Error executing command: '' @ Message err), w1)
             | (Inr output, w1) \<Rightarrow> (NewToolResultText output, w1))
      | _ \<Rightarrow> (NewToolResultError ''command must be a string'', w))"

definition handleWriteFile ::
  "'w os_ops \<Rightarrow> FileSystemConfig \<Rightarrow> (string \<rightharpoonup> json_value) \<Rightarrow> 'w \<Rightarrow> CallToolResult \<times> 'w" where
  "handleWriteFile sys config args w =
     (case args ''path'' of
        Some (JString path0) \<Rightarrow>
          (case args ''content'' of
             Some (JString content) \<Rightarrow>
               let path = Join [CachePath config, path0]
               in (case validatePath (view sys w) config path of
                     Inl err \<Rightarrow>
                       (\<lparr>Content = [TextContent (''Error: '' @ Error err)], IsError = True\<rparr>, w)
                   | Inr validPath \<Rightarrow>
                       if (case Stat (view sys w) validPath of
                             Inr info \<Rightarrow> IsDir info
                           | Inl err \<Rightarrow> False)
                       then (CallToolResultErr
                               (''Error: Cannot write to a directory:'' @ validPath), w)
                       else
                         let parentDir = Dir validPath
                         in (case MkdirAll sys parentDir w of
                               (Some err, w1) \<Rightarrow>
                                 (CallToolResultErr
                                    (''Error creating parent directories: '' @ Message err), w1)
                             | (None, w1) \<Rightarrow>
                                 (case WriteFile sys validPath content w1 of
                                    (Some err, w2) \<Rightarrow>
                                      (CallToolResultErr
                                         (''Error writing file: '' @ Message err), w2)
                                  | (None, w2) \<Rightarrow>
                                      (case Stat (view sys w2) validPath of
                                         Inl err \<Rightarrow>
                                           (CallToolResultText
                                              (''Successfully wrote to '' @ path), w2)
                                       | Inr info \<Rightarrow>
                                           (\<lparr>Content =
                                               [TextContent
                                                  (''Successfully wrote '' @ showInt (Size info)
                                                     @ '' bytes to '' @ path),
                                                EmbeddedResource (pathToResourceURI validPath)
                                                  ''text/plain''
                                                  (''File: '' @ validPath @ '' (''
                                                     @ showInt (Size info) @ '' bytes)'')],
                                              IsError = False\<rparr>, w2)))))
           | _ \<Rightarrow> (CallToolResultErr ''Content must be a string'', w))
      | _ \<Rightarrow> (CallToolResultErr ''Path must be a string'', w))"

definition handleCreateDirectory ::
  "'w os_ops \<Rightarrow> FileSystemConfig \<Rightarrow> (string \<rightharpoonup> json_value) \<Rightarrow> 'w \<Rightarrow> CallToolResult \<times> 'w" where
  "handleCreateDirectory sys config args w =
     (case args ''path'' of
        Some (JString path) \<Rightarrow>
          (case validatePath (view sys w) config path of
             Inl err \<Rightarrow> (CallToolResultErr (''Error: '' @ Error err), w)
           | Inr validPath \<Rightarrow>
               (case Stat (view sys w) validPath of
                  Inr info \<Rightarrow>
                    if IsDir info then
                      (\<lparr>Content =
                          [TextContent (''Directory already exists: '' @ path),
                           EmbeddedResource (pathToResourceURI validPath) ''text/plain''
                             (''Directory: '' @ validPath)],
                         IsError = False\<rparr>, w)
                    else
                      (CallToolResultErr
                         (''Error: Path exists but is not a directory: '' @ path), w)
                | Inl err0 \<Rightarrow>
                    (case MkdirAll sys validPath w of
                       (Some err, w1) \<Rightarrow>
                         (CallToolResultErr (''Error creating directory: '' @ Message err), w1)
                     | (None, w1) \<Rightarrow>
                         (\<lparr>Content =
                             [TextContent (''Successfully created directory '' @ path),
                              EmbeddedResource (pathToResourceURI validPath) ''text/plain''
                                (''Directory: '' @ validPath)],
                            IsError = False\<rparr>, w1))))
      | _ \<Rightarrow> (CallToolResultErr ''path must be a string'', w))"

definition handleMoveFile ::
  "'w os_ops \<Rightarrow> FileSystemConfig \<Rightarrow> (string \<rightharpoonup> json_value) \<Rightarrow> 'w \<Rightarrow> CallToolResult \<times> 'w" where
  "handleMoveFile sys config args w =
     (case args ''source'' of
        Some (JString source) \<Rightarrow>
          (case args ''destination'' of
             Some (JString destination) \<Rightarrow>
               (case validatePath (view sys w) config source of
                  Inl err \<Rightarrow>
                    (CallToolResultErr (''Error with source path: '' @ Error err), w)
                | Inr validSource \<Rightarrow>
                    if (case Stat (view sys w) validSource of
                          Inl err \<Rightarrow> IsNotExist err
                        | Inr info \<Rightarrow> False)
                    then (CallToolResultErr
                            (''Error: Source does not exist: '' @ source), w)
                    else
                      (case validatePath (view sys w) config destination of
                         Inl err \<Rightarrow>
                           (CallToolResultErr
                              (''Error with destination path: '' @ Error err), w)
                       | Inr validDest \<Rightarrow>
                           let destDir = Dir validDest
                           in (case MkdirAll sys destDir w of
                                 (Some err, w1) \<Rightarrow>
                                   (CallToolResultErr
                                      (''Error creating destination directory: ''
                                         @ Message err), w1)
                               | (None, w1) \<Rightarrow>
                                   (case Rename sys validSource validDest w1 of
                                      (Some err, w2) \<Rightarrow>
                                        (CallToolResultErr
                                           (''Error moving file: '' @ Message err), w2)
                                    | (None, w2) \<Rightarrow>
                                        (\<lparr>Content =
                                            [TextContent
                                               (''Successfully moved '' @ source @ '' to ''
                                                  @ destination),
                                             EmbeddedResource (pathToResourceURI validDest)
                                               ''text/plain''
                                               (''Moved file: '' @ validDest)],
                                           IsError = False\<rparr>, w2)))))
           | _ \<Rightarrow> (CallToolResultErr ''destination must be a string'', w))
      | _ \<Rightarrow> (CallToolResultErr ''source must be a string'', w))"

section \<open>A sample filesystem\<close>

text \<open>
  Concrete inputs need a concrete operating system. A filesystem is given as a table
  from absolute paths, as lists of elements, to directories, regular files and
  symbolic links with an absolute target; the root directory is the empty list. \<open>walk\<close>
  resolves a path element by element, following at most 255 links as
  \<^verbatim>\<open>filepath.EvalSymlinks\<close> does. \<open>treeOS\<close> answers \<^verbatim>\<open>os.Stat\<close> and
  \<^verbatim>\<open>filepath.EvalSymlinks\<close> from the table, for the absolute paths the program passes.
\<close>

datatype node = DirNode | FileNode int | LinkNode string

definition pathElems :: "string \<Rightarrow> string list" where
  "pathElems path = filter (\<lambda>e. e \<noteq> []) (Split path (CHR ''/''))"

fun walk ::
  "nat \<Rightarrow> (string list \<times> node) list \<Rightarrow> string list \<Rightarrow> string list \<Rightarrow> os_error + string list" where
  "walk fuel tree cur [] = Inr cur"
| "walk fuel tree cur (e # rest) =
     (case map_of tree (cur @ [e]) of
        None \<Rightarrow>
          Inl (OSError True (''lstat '' @ elemsPath (cur @ [e]) @ '': no such file or directory''))
      | Some DirNode \<Rightarrow> walk fuel tree (cur @ [e]) rest
      | Some (FileNode n) \<Rightarrow>
          if rest = [] then Inr (cur @ [e])
          else Inl (OSError False (''lstat '' @ elemsPath (cur @ [e]) @ '': not a directory''))
      | Some (LinkNode target) \<Rightarrow>
          (case fuel of
             0 \<Rightarrow> Inl (OSError False ''EvalSymlinks: too many links'')
           | Suc fuel1 \<Rightarrow> walk fuel1 tree [] (pathElems target @ rest)))"

definition treeOS :: "(string list \<times> node) list \<Rightarrow> string \<Rightarrow> os_env" where
  "treeOS tree wd =
     \<lparr>Getwd = Inr wd,
      Stat = (\<lambda>p. case walk 255 tree [] (pathElems p) of
                     Inl err \<Rightarrow> Inl err
                   | Inr real \<Rightarrow>
                       (case map_of tree real of
                          Some (FileNode n) \<Rightarrow> Inr \<lparr>Size = n, IsDir = False\<rparr>
                        | _ \<Rightarrow> Inr \<lparr>Size = 4096, IsDir = True\<rparr>)),
      EvalSymlinks = (\<lambda>p. case walk 255 tree [] (pathElems p) of
                     Inl err \<Rightarrow> Inl err
                   | Inr real \<Rightarrow> Inr (elemsPath real)),
      ReadFile = (\<lambda>p. Inl (OSError True (''open '' @ p @ '': no such file or directory''))),
      TempDir = ''/tmp''\<rparr>"

text \<open>
  The sample: the allowed root \<^verbatim>\<open>/tmp/root\<close> holds a file, a link to that file, a link
  to the directory \<^verbatim>\<open>/etc\<close> and a link to \<^verbatim>\<open>/etc/evil\<close>, which does not exist; outside
  the root, \<^verbatim>\<open>/outside/in\<close> is a link to the root. The working directory is the root.
\<close>

definition demoTree :: "(string list \<times> node) list" where
  "demoTree =
     [([''tmp''], DirNode),
      ([''tmp'', ''root''], DirNode),
      ([''tmp'', ''root'', ''file.txt''], FileNode 12),
      ([''tmp'', ''root'', ''alias''], LinkNode ''/tmp/root/file.txt''),
      ([''tmp'', ''root'', ''link''], LinkNode ''/etc''),
      ([''tmp'', ''root'', ''dangling''], LinkNode ''/etc/evil''),
      ([''etc''], DirNode),
      ([''etc'', ''passwd''], FileNode 100),
      ([''outside''], DirNode),
      ([''outside'', ''in''], LinkNode ''/tmp/root'')]"

definition demoOS :: os_env where
  "demoOS = treeOS demoTree ''/tmp/root''"

definition demoConfig :: FileSystemConfig where
  "demoConfig =
     \<lparr>fsPromptFile = [], fsPrompt = [], AllowedDir = ''/tmp/root'',
      allowedDirs = [''/tmp/root/''], CachePath = ''/tmp/root''\<rparr>"

text \<open>The configuration whose only allowed root is \<^verbatim>\<open>/tmp/foo/\<close>.\<close>

definition fooConfig :: FileSystemConfig where
  "fooConfig =
     \<lparr>fsPromptFile = [], fsPrompt = [], AllowedDir = ''/tmp/foo'',
      allowedDirs = [''/tmp/foo/''], CachePath = ''/tmp/foo''\<rparr>"

text \<open>
  A machine state for the sample: the table of files and the list of commands that
  were spawned. Creating a directory and writing a file add an entry, renaming moves
  one, and executing a command records it.
\<close>

record world =
  files :: "(string list \<times> node) list"
  spawned :: "string list"

definition demoSys :: "world os_ops" where
  "demoSys =
     \<lparr>view = (\<lambda>w. treeOS (files w) ''/tmp/root''),
      MkdirAll = (\<lambda>p w. (None, w\<lparr>files := (pathElems p, DirNode) # files w\<rparr>)),
      WriteFile = (\<lambda>p content w.
         (None, w\<lparr>files := (pathElems p, FileNode (int (length content))) # files w\<rparr>)),
      Rename = (\<lambda>oldpath newpath w.
         case map_of (files w) (pathElems oldpath) of
           None \<Rightarrow> (Some (OSError True ''rename: no such file or directory''), w)
         | Some n \<Rightarrow>
             (None, w\<lparr>files := (pathElems newpath, n)
                        # filter (\<lambda>entry. fst entry \<noteq> pathElems oldpath) (files w)\<rparr>)),
      ExecCommand = (\<lambda>command w. (Inr [], w\<lparr>spawned := spawned w @ [command]\<rparr>))\<rparr>"

definition demoWorld :: world where
  "demoWorld = \<lparr>files = demoTree, spawned = []\<rparr>"

definition lsOnly :: CommandConfig where
  "lsOnly = NewCommandConfig\<lparr>AllowedCommand := ''ls'', allowedCommands := [''ls'']\<rparr>"

section \<open>Facts about paths\<close>

lemma Split_no_sep: "e \<in> set (Split s sep) \<Longrightarrow> sep \<notin> set e"
proof (induction s arbitrary: e)
  case Nil
  then show ?case by simp
next
  case (Cons c cs)
  obtain p ps where ps: "Split cs sep = p # ps"
    using Split_not_Nil [of cs sep] by (cases "Split cs sep") auto
  have p: "sep \<notin> set p" and r: "\<And>x. x \<in> set ps \<Longrightarrow> sep \<notin> set x"
    using Cons.IH ps by auto
  show ?case
  proof (cases "c = sep")
    case True
    with Cons.prems ps p r show ?thesis by auto
  next
    case False
    with Cons.prems ps p r show ?thesis by auto
  qed
qed

lemma Split_single: "sep \<notin> set e \<Longrightarrow> Split e sep = [e]"
  by (induction e) auto

lemma Split_append_sep: "sep \<notin> set e \<Longrightarrow> Split (e @ sep # rest) sep = e # Split rest sep"
  by (induction e) auto

lemma Split_JoinStrings:
  "es \<noteq> [] \<Longrightarrow> \<forall>e \<in> set es. sep \<notin> set e \<Longrightarrow> Split (JoinStrings es sep) sep = es"
proof (induction es sep rule: JoinStrings.induct)
  case (1 sep)
  then show ?case by simp
next
  case (2 e sep)
  then show ?case by (simp add: Split_single)
next
  case (3 e v va sep)
  then show ?case by (simp add: Split_append_sep)
qed

lemma JoinStrings_snoc:
  "JoinStrings (bs @ [e]) sep = (if bs = [] then e else JoinStrings bs sep @ sep # e)"
  by (induction bs sep rule: JoinStrings.induct) auto

lemma cleanElems_proper:
  "list_all properElem es \<Longrightarrow> cleanElems rooted out es = out @ es"
  by (induction es arbitrary: out) (auto simp: properElem_def)

lemma cleanElems_rooted_proper:
  "\<forall>e \<in> set es. CHR ''/'' \<notin> set e \<Longrightarrow> list_all properElem out \<Longrightarrow>
     list_all properElem (cleanElems True out es)"
proof (induction es arbitrary: out)
  case Nil
  then show ?case by simp
next
  case (Cons e es)
  have bl: "list_all properElem (butlast out)"
    using Cons.prems(2) by (auto simp: list_all_iff dest: in_set_butlastD)
  have ap: "properElem e \<Longrightarrow> list_all properElem (out @ [e])"
    using Cons.prems(2) by simp
  have pe: "e \<noteq> [] \<Longrightarrow> e \<noteq> ''.'' \<Longrightarrow> e \<noteq> ''..'' \<Longrightarrow> properElem e"
    using Cons.prems(1) by (simp add: properElem_def)
  show ?case
    using Cons.IH [of out] Cons.IH [of "butlast out"] Cons.IH [of "out @ [e]"]
      Cons.prems bl ap pe
    by auto
qed

lemma cleanElems_plain:
  "\<forall>e \<in> set es. CHR ''/'' \<notin> set e \<Longrightarrow> list_all plainElem out \<Longrightarrow>
     list_all plainElem (cleanElems rooted out es)"
proof (induction es arbitrary: out)
  case Nil
  then show ?case by simp
next
  case (Cons e es)
  have tl: "\<forall>e \<in> set es. CHR ''/'' \<notin> set e" using Cons.prems(1) by simp
  have bl: "list_all plainElem (butlast out)"
    using Cons.prems(2) by (auto simp: list_all_iff dest: in_set_butlastD)
  have "plainElem ''..''" by (simp add: plainElem_def)
  then have dd: "list_all plainElem (out @ [''..''])"
    using Cons.prems(2) by simp
  have "e \<noteq> [] \<Longrightarrow> plainElem e"
    using Cons.prems(1) by (simp add: plainElem_def)
  then have ap: "e \<noteq> [] \<Longrightarrow> list_all plainElem (out @ [e])"
    using Cons.prems(2) by simp
  note ih = Cons.IH [OF tl]
  show ?case
  proof (cases "e = [] \<or> e = ''.''")
    case True
    then have "cleanElems rooted out (e # es) = cleanElems rooted out es" by auto
    with ih [OF Cons.prems(2)] show ?thesis by simp
  next
    case False
    note nskip = this
    show ?thesis
    proof (cases "e = ''..''")
      case True
      then have "cleanElems rooted out (e # es) = cleanElems rooted (butlast out) es \<or>
          cleanElems rooted out (e # es) = cleanElems rooted out es \<or>
          cleanElems rooted out (e # es) = cleanElems rooted (out @ [''..'']) es"
        by simp
      with ih [OF Cons.prems(2)] ih [OF bl] ih [OF dd] show ?thesis by auto
    next
      case False
      with nskip have "cleanElems rooted out (e # es) = cleanElems rooted (out @ [e]) es"
        by simp
      moreover from nskip have "e \<noteq> []" by simp
      ultimately show ?thesis using ih [OF ap] by simp
    qed
  qed
qed

lemma JoinStrings_not_rooted:
  "list_all plainElem out \<Longrightarrow> \<not> HasPrefix (JoinStrings out (CHR ''/'')) ''/''"
proof (cases out)
  case Nil
  then show ?thesis by (simp add: HasPrefix_def)
next
  case (Cons e es)
  assume a: "list_all plainElem out"
  with Cons obtain c cs where e: "e = c # cs" and c: "c \<noteq> CHR ''/''"
    by (cases e) (auto simp: plainElem_def)
  have "JoinStrings out (CHR ''/'') =
      c # (cs @ (case es of [] \<Rightarrow> [] | _ \<Rightarrow> CHR ''/'' # JoinStrings es (CHR ''/'')))"
    using Cons e by (cases es) auto
  with c show ?thesis by (simp add: HasPrefix_def)
qed

lemma Clean_rooted:
  assumes "IsAbs path"
  shows "\<exists>es. list_all properElem es \<and> Clean path = elemsPath es"
proof -
  from assms have ne: "path \<noteq> []" and r: "HasPrefix path ''/''"
    by (auto simp: IsAbs_def HasPrefix_def)
  let ?out = "cleanElems True [] (Split path (CHR ''/''))"
  have "list_all properElem ?out"
    by (rule cleanElems_rooted_proper) (auto dest: Split_no_sep)
  moreover have "Clean path = elemsPath ?out"
    using ne r by (simp add: Clean_def elemsPath_def Let_def)
  ultimately show ?thesis by blast
qed

lemma Clean_IsAbs:
  assumes "IsAbs (Clean path)"
  shows "IsAbs path"
proof (rule ccontr)
  assume n: "\<not> IsAbs path"
  let ?out = "cleanElems False [] (Split path (CHR ''/''))"
  have "list_all plainElem ?out"
    by (rule cleanElems_plain) (auto dest: Split_no_sep)
  then have j: "\<not> HasPrefix (JoinStrings ?out (CHR ''/'')) ''/''"
    by (rule JoinStrings_not_rooted)
  have d: "\<not> HasPrefix ''.'' ''/''" by (simp add: HasPrefix_def)
  have "\<not> IsAbs (Clean path)"
    using n j d by (auto simp: Clean_def IsAbs_def Let_def)
  with assms show False by simp
qed

lemma Split_elemsPath:
  assumes "list_all properElem es"
  shows "Split (elemsPath es) (CHR ''/'') = [] # (if es = [] then [[]] else es)"
proof (cases "es = []")
  case True
  then show ?thesis by (simp add: elemsPath_def)
next
  case False
  have "\<forall>e \<in> set es. CHR ''/'' \<notin> set e"
    using assms by (auto simp: list_all_iff properElem_def)
  with False have "Split (JoinStrings es (CHR ''/'')) (CHR ''/'') = es"
    by (rule Split_JoinStrings)
  with False show ?thesis by (simp add: elemsPath_def)
qed

lemma Clean_elemsPath:
  assumes "list_all properElem es"
  shows "Clean (elemsPath es) = elemsPath es"
proof -
  have r: "HasPrefix (elemsPath es) ''/''" by (simp add: elemsPath_def HasPrefix_def)
  have "cleanElems True [] (Split (elemsPath es) (CHR ''/'')) = es"
    using assms by (simp add: Split_elemsPath cleanElems_proper)
  with r show ?thesis
    by (simp add: Clean_def Let_def elemsPath_def)
qed

lemma Abs_form:
  assumes "Abs env p = Inr a" and "IsAbs a"
  shows "\<exists>es. list_all properElem es \<and> a = elemsPath es"
proof -
  have "\<exists>x. a = Clean x"
  proof (cases "IsAbs p")
    case True
    with assms(1) show ?thesis by (auto simp: Abs_def)
  next
    case False
    with assms(1) obtain wd where wd: "Getwd env = Inr wd" and a: "a = Join [wd, p]"
      by (cases "Getwd env") (auto simp: Abs_def)
    show ?thesis
    proof (cases "wd = [] \<and> p = []")
      case True
      with a have "a = []" by simp
      with assms(2) show ?thesis by (simp add: IsAbs_def HasPrefix_def)
    next
      case False
      with a show ?thesis by (cases "wd = []") auto
    qed
  qed
  then obtain x where x: "a = Clean x" ..
  with assms(2) have "IsAbs x" by (simp add: Clean_IsAbs)
  from Clean_rooted [OF this] x show ?thesis by simp
qed

lemma Abs_elemsPath:
  assumes "list_all properElem es"
  shows "Abs env (elemsPath es) = Inr (elemsPath es)"
proof -
  have "IsAbs (elemsPath es)" by (simp add: IsAbs_def elemsPath_def HasPrefix_def)
  then show ?thesis using assms by (simp add: Abs_def Clean_elemsPath)
qed

lemma elemsPath_snoc:
  "elemsPath (bs @ [e]) = (if bs = [] then [] else elemsPath bs) @ CHR ''/'' # e"
  by (simp add: elemsPath_def JoinStrings_snoc)

lemma HasSuffix_sep: "HasSuffix s ''/'' \<longleftrightarrow> s \<noteq> [] \<and> last s = CHR ''/''"
proof (cases s rule: rev_cases)
  case Nil
  then show ?thesis by (simp add: HasSuffix_def)
next
  case (snoc ys y)
  then show ?thesis by (auto simp: HasSuffix_def)
qed

lemma elemsPath_no_trailing_sep:
  assumes "list_all properElem es" and "es \<noteq> []"
  shows "\<not> HasSuffix (elemsPath es) ''/''"
proof -
  from assms(2) obtain bs e where es: "es = bs @ [e]" by (cases es rule: rev_cases) auto
  with assms(1) have e: "e \<noteq> []" "CHR ''/'' \<notin> set e" by (auto simp: properElem_def)
  then have "last e \<noteq> CHR ''/''" using last_in_set by metis
  moreover have "last (elemsPath es) = last e"
    using e(1) unfolding es elemsPath_snoc by simp
  ultimately show ?thesis by (simp add: HasSuffix_sep)
qed

lemma cleanElems_append:
  "cleanElems rooted out (xs @ ys) = cleanElems rooted (cleanElems rooted out xs) ys"
  by (induction xs arbitrary: out) auto

lemma Split_snoc_sep:
  "sep \<notin> set e \<Longrightarrow> Split (xs @ sep # e) sep = Split xs sep @ [e]"
proof (induction xs)
  case Nil
  then show ?case by (simp add: Split_single)
next
  case (Cons c cs)
  obtain p ps where ps: "Split cs sep = p # ps"
    using Split_not_Nil [of cs sep] by (cases "Split cs sep") auto
  with Cons show ?case by auto
qed

lemma dropWhile_rev_elem:
  "CHR ''/'' \<notin> set e \<Longrightarrow>
     rev (dropWhile (\<lambda>c. c \<noteq> CHR ''/'') (rev (xs @ CHR ''/'' # e))) = xs @ ''/''"
  by (simp add: dropWhile_append)

lemma Dir_elemsPath:
  assumes "list_all properElem (bs @ [e])"
  shows "Dir (elemsPath (bs @ [e])) = elemsPath bs"
proof -
  from assms have e: "CHR ''/'' \<notin> set e" and bs: "list_all properElem bs"
    by (auto simp: properElem_def)
  let ?y = "if bs = [] then [] else elemsPath bs"
  have d: "Dir (elemsPath (bs @ [e])) = Clean (?y @ ''/'')"
    unfolding Dir_def elemsPath_snoc using dropWhile_rev_elem [OF e] by simp
  show ?thesis
  proof (cases "bs = []")
    case True
    have "Clean ''/'' = ''/''" by code_simp
    with True d show ?thesis by (simp add: elemsPath_def)
  next
    case False
    have "Split (elemsPath bs @ ''/'') (CHR ''/'') = Split (elemsPath bs) (CHR ''/'') @ [[]]"
      using Split_snoc_sep [of "CHR ''/''" "[]" "elemsPath bs"] by simp
    also have "\<dots> = ([] # bs) @ [[]]"
      using bs False by (simp add: Split_elemsPath)
    finally have s: "Split (elemsPath bs @ ''/'') (CHR ''/'') = ([] # bs) @ [[]]" .
    have c: "cleanElems True [] (bs @ [[]]) = bs"
      using bs by (simp add: cleanElems_append cleanElems_proper)
    have r: "HasPrefix (elemsPath bs @ ''/'') ''/''" by (simp add: elemsPath_def HasPrefix_def)
    have "Clean (elemsPath bs @ ''/'') = ''/'' @ JoinStrings bs (CHR ''/'')"
      unfolding Clean_def Let_def s using r by (simp add: c)
    then have "Clean (elemsPath bs @ ''/'') = elemsPath bs"
      by (simp add: elemsPath_def)
    with False d show ?thesis by simp
  qed
qed

lemma HasPrefix_append: "HasPrefix s r \<Longrightarrow> HasPrefix (s @ t) r"
  by (simp add: HasPrefix_iff_prefix)

lemma Dir_candidate:
  assumes "list_all properElem es" and "es \<noteq> []" and "r \<noteq> ''//''"
    and "HasPrefix (Dir (elemsPath es) @ ''/'') r"
  shows "HasPrefix (elemsPath es @ ''/'') r"
proof -
  from assms(2) obtain bs e where es: "es = bs @ [e]" by (cases es rule: rev_cases) auto
  have d: "Dir (elemsPath es) = elemsPath bs"
    using assms(1) unfolding es by (rule Dir_elemsPath)
  show ?thesis
  proof (cases "bs = []")
    case True
    with d assms(4) have "prefix r ''//''" by (simp add: elemsPath_def HasPrefix_iff_prefix)
    then have "r = [] \<or> r = ''/'' \<or> r = ''//''"
      by (auto simp: prefix_Cons)
    with assms(3) have "r = [] \<or> r = ''/''" by simp
    then show ?thesis by (auto simp: HasPrefix_def elemsPath_def)
  next
    case False
    then have "elemsPath es @ ''/'' = (elemsPath bs @ ''/'') @ (e @ ''/'')"
      unfolding es elemsPath_snoc by simp
    with assms(4) d show ?thesis by (simp add: HasPrefix_append del: append_assoc)
  qed
qed

lemma outside_not_in_allowed:
  assumes es: "list_all properElem es"
    and nr: "''//'' \<notin> set (allowedDirs config)"
    and out: "\<forall>root \<in> set (allowedDirs config).
       \<not> HasPrefix (if HasSuffix (elemsPath es) ''/'' then elemsPath es else elemsPath es @ ''/'') root"
  shows "\<not> isPathInAllowedDirs env config (elemsPath es)"
proof (cases "es = []")
  case True
  then have "HasSuffix (elemsPath es) ''/''" by (simp add: elemsPath_def HasSuffix_def)
  with out show ?thesis
    by (simp add: isPathInAllowedDirs_def Abs_elemsPath [OF es] list_ex_iff)
next
  case False
  have ns: "\<not> HasSuffix (elemsPath es) ''/''"
    using es False by (rule elemsPath_no_trailing_sep)
  with out have o: "\<And>root. root \<in> set (allowedDirs config) \<Longrightarrow> \<not> HasPrefix (elemsPath es @ ''/'') root"
    by simp
  have d: "\<And>root. root \<in> set (allowedDirs config) \<Longrightarrow> \<not> HasPrefix (Dir (elemsPath es) @ ''/'') root"
  proof
    fix root assume r: "root \<in> set (allowedDirs config)" and h: "HasPrefix (Dir (elemsPath es) @ ''/'') root"
    from r nr have "root \<noteq> ''//''" by auto
    from Dir_candidate [OF es False this h] o [OF r] show False by simp
  qed
  show ?thesis
    using ns o d
    by (auto simp: isPathInAllowedDirs_def Abs_elemsPath [OF es] list_ex_iff Let_def split: sum.splits)
qed


lemma normalizeDirs_Inr:
  "normalizeDirs env normalized dirs = Inr out \<Longrightarrow>
     \<exists>new. out = normalized @ new \<and>
       list_all2 (\<lambda>dir root. \<exists>absPath info.
           Abs env (TrimSpace dir) = Inr absPath \<and> Stat env absPath = Inr info \<and>
           IsDir info \<and> root = Clean absPath @ ''/'') dirs new"
proof (induction dirs arbitrary: normalized)
  case Nil
  then show ?case by simp
next
  case (Cons dir dirs)
  from Cons.prems obtain absPath where a: "Abs env (TrimSpace dir) = Inr absPath"
    by (cases "Abs env (TrimSpace dir)") auto
  from Cons.prems a obtain info where i: "Stat env absPath = Inr info"
    by (cases "Stat env absPath") auto
  from Cons.prems a i have d: "IsDir info"
    by (cases "IsDir info") auto
  from Cons.prems a i d
  have "normalizeDirs env (normalized @ [Clean absPath @ ''/'']) dirs = Inr out" by simp
  from Cons.IH [OF this] obtain new where
    n: "out = (normalized @ [Clean absPath @ ''/'']) @ new"
    and l: "list_all2 (\<lambda>dir root. \<exists>absPath info.
           Abs env (TrimSpace dir) = Inr absPath \<and> Stat env absPath = Inr info \<and>
           IsDir info \<and> root = Clean absPath @ ''/'') dirs new" by blast
  have "out = normalized @ ((Clean absPath @ ''/'') # new)" using n by simp
  moreover have "list_all2 (\<lambda>dir root. \<exists>absPath info.
           Abs env (TrimSpace dir) = Inr absPath \<and> Stat env absPath = Inr info \<and>
           IsDir info \<and> root = Clean absPath @ ''/'') (dir # dirs) ((Clean absPath @ ''/'') # new)"
    using a i d l by auto
  ultimately show ?case by blast
qed


section \<open>Claims about the command allowlist\<close>

text \<open>
  Claim C1. The claim: a command line with a pipe or an ampersand is approved only if
  every part of it, cut at the delimiter and trimmed, is approved on its own; so
  \<^verbatim>\<open>ls | grep foo\<close> is refused when \<^verbatim>\<open>grep\<close> is not on the list. The code returns \<^verbatim>\<open>true\<close>
  from its first loop whenever an entry is a prefix of the whole line, before it looks
  for a delimiter: with the allowlist \<^verbatim>\<open>{ls}\<close> the line \<^verbatim>\<open>ls | grep foo\<close> is approved,
  its parts are \<^verbatim>\<open>ls\<close> and \<^verbatim>\<open>grep foo\<close>, and \<^verbatim>\<open>grep foo\<close> alone is refused.
\<close>

theorem pipe_subcommands_not_all_checked:
  "isAllowedCommand [''ls''] ''ls | grep foo'' \<and>
   map TrimSpace (Split ''ls | grep foo'' (CHR ''|'')) = [''ls'', ''grep foo''] \<and>
   \<not> isAllowedCommand [''ls''] ''grep foo''"
  by code_simp

text \<open>
  Claim C2, as stated: with the allowlist \<^verbatim>\<open>{ls}\<close> the line \<^verbatim>\<open>lsblk -a\<close> is refused,
  because an entry must equal the first whitespace-delimited token. It is approved: the
  first token is \<^verbatim>\<open>lsblk\<close>, and \<^verbatim>\<open>ls\<close> is a prefix of the line.
\<close>

theorem lsblk_is_approved:
  "isAllowedCommand [''ls''] ''lsblk -a'' \<and>
   takeWhile (\<lambda>c. c \<noteq> CHR '' '') ''lsblk -a'' = ''lsblk''"
  by code_simp

text \<open>
  Claim C2, amended: an allowlist entry approves every command line of which it is a
  prefix as a string of bytes, whether or not it is the whole first token.
\<close>

theorem prefix_entry_approves:
  "allowed \<in> set allowlist \<Longrightarrow> HasPrefix command allowed \<Longrightarrow>
     isAllowedCommand allowlist command"
  by (rule isAllowedCommand_prefix)

text \<open>Claim C2, amended, at the allowlist \<^verbatim>\<open>{ls}\<close> and the line \<^verbatim>\<open>lsblk -a\<close>.\<close>

theorem prefix_entry_approves_witness:
  "''ls'' \<in> set [''ls''] \<and> HasPrefix ''lsblk -a'' ''ls'' \<and>
   isAllowedCommand [''ls''] ''lsblk -a''"
proof -
  have m: "''ls'' \<in> set [''ls'']" by simp
  have p: "HasPrefix ''lsblk -a'' ''ls''" by (simp add: HasPrefix_def)
  from prefix_entry_approves [OF m p] m p show ?thesis by simp
qed

text \<open>
  Claim C3. When the \<^verbatim>\<open>allowed_command\<close> string that \<^verbatim>\<open>LoadConfig\<close> merges from the JSON
  object has an empty entry among its comma-separated entries and at least one entry
  that is not empty, \<^verbatim>\<open>LoadConfig\<close> (and with it \<^verbatim>\<open>Check\<close>) succeeds, the allowlist is
  the split string with the empty entry still in it, and every command line whatsoever
  is allowed. \<^verbatim>\<open>Check\<close> also reads the prompt file when one is configured; the statement
  is for a configuration without one, or with one that can be read.
\<close>

theorem empty_entry_allows_everything:
  assumes "MergeJSONToStruct_CommandConfig cc jsonData = Inr cc1"
    and "[] \<in> set (Split (AllowedCommand cc1) (CHR '',''))"
    and "\<exists>e \<in> set (Split (AllowedCommand cc1) (CHR '','')). e \<noteq> []"
    and "PromptFile cc1 = [] \<or> (\<exists>body. ReadFile env (PromptFile cc1) = Inr body)"
  shows "\<exists>cc'. CommandServer_LoadConfig env CommandPromptDefault cc jsonData = Inr cc' \<and>
           allowedCommands cc' = Split (AllowedCommand cc1) (CHR '','') \<and>
           [] \<in> set (allowedCommands cc') \<and>
           (\<forall>command. isAllowedCommand (allowedCommands cc') command)"
proof -
  let ?cmds = "Split (AllowedCommand cc1) (CHR '','')"
  let ?cc2 = "cc1\<lparr>allowedCommands := ?cmds\<rparr>"
  from assms(3) obtain e where e: "e \<in> set ?cmds" "e \<noteq> []" by blast
  have cnt: "int (length ?cmds) - int (length (filter (\<lambda>cmd. cmd = []) ?cmds)) > 0"
    using count_nonempty_pos [OF e] by simp
  have load: "CommandServer_LoadConfig env CommandPromptDefault cc jsonData =
      CommandConfig_Check env CommandPromptDefault ?cc2"
    by (simp add: CommandServer_LoadConfig_def assms(1))
  have "\<exists>cc'. CommandConfig_Check env CommandPromptDefault ?cc2 = Inr cc' \<and>
      allowedCommands cc' = ?cmds"
  proof (cases "PromptFile cc1 = []")
    case True
    with cnt show ?thesis
      by (simp add: CommandConfig_Check_def Let_def count_empty_fold)
  next
    case False
    with assms(4) obtain body where "ReadFile env (PromptFile cc1) = Inr body" by blast
    with cnt False show ?thesis
      by (simp add: CommandConfig_Check_def Let_def count_empty_fold)
  qed
  then obtain cc' where c: "CommandConfig_Check env CommandPromptDefault ?cc2 = Inr cc'"
    and sel: "allowedCommands cc' = ?cmds" by blast
  have all: "isAllowedCommand ?cmds command" for command
    using assms(2) HasPrefix_Nil by (rule isAllowedCommand_prefix)
  show ?thesis
  proof (intro exI conjI allI)
    show "CommandServer_LoadConfig env CommandPromptDefault cc jsonData = Inr cc'"
      using load c by simp
    show "allowedCommands cc' = ?cmds" by (rule sel)
    show "[] \<in> set (allowedCommands cc')" unfolding sel by (rule assms(2))
    show "isAllowedCommand (allowedCommands cc') command" for command
      unfolding sel by (rule all)
  qed
qed

text \<open>
  Claim C3 at the configuration string \<^verbatim>\<open>ls,\<close> (a trailing comma), loaded into the
  default configuration: the allowlist is \<^verbatim>\<open>["ls", ""]\<close> and \<^verbatim>\<open>rm -rf /\<close> is allowed.
\<close>

theorem empty_entry_allows_everything_witness:
  "\<exists>cc'. CommandServer_LoadConfig emptyOS [] NewCommandConfig
            [''allowed_command'' \<mapsto> JString ''ls,''] = Inr cc' \<and>
      allowedCommands cc' = [''ls'', []] \<and>
      isAllowedCommand (allowedCommands cc') ''rm -rf /''"
proof -
  let ?cc1 = "NewCommandConfig\<lparr>AllowedCommand := ''ls,''\<rparr>"
  have m: "MergeJSONToStruct_CommandConfig NewCommandConfig
      [''allowed_command'' \<mapsto> JString ''ls,''] = Inr ?cc1"
    by (simp add: MergeJSONToStruct_CommandConfig_def)
  have s: "Split (AllowedCommand ?cc1) (CHR '','') = [''ls'', []]" by simp
  have h2: "[] \<in> set (Split (AllowedCommand ?cc1) (CHR '',''))" unfolding s by simp
  have h3: "\<exists>e \<in> set (Split (AllowedCommand ?cc1) (CHR '','')). e \<noteq> []" unfolding s by simp
  have h4: "PromptFile ?cc1 = [] \<or> (\<exists>body. ReadFile emptyOS (PromptFile ?cc1) = Inr body)"
    by (simp add: NewCommandConfig_def)
  from empty_entry_allows_everything [OF m h2 h3 h4, of "[]"]
  show ?thesis unfolding s by blast
qed

section \<open>Claims about the path guard\<close>

text \<open>
  Claim C10. \<^verbatim>\<open>NewFileSystemConfig\<close> ignores its argument: whatever directory is passed,
  the allowed directories are the one-element list holding the temporary directory of
  the operating system, and \<^verbatim>\<open>CachePath\<close> (and \<^verbatim>\<open>AllowedDir\<close>) is that directory; so it is
  for the configuration of a new \<^verbatim>\<open>FilesystemServer\<close>, whatever the base path.
\<close>

theorem NewFileSystemConfig_ignores_argument:
  "allowedDirs (NewFileSystemConfig env path) = [TempDir env] \<and>
   CachePath (NewFileSystemConfig env path) = TempDir env \<and>
   AllowedDir (NewFileSystemConfig env path) = TempDir env \<and>
   allowedDirs (NewFilesystemServer_config env BasePath) = [TempDir env] \<and>
   CachePath (NewFilesystemServer_config env BasePath) = TempDir env"
  by (simp add: NewFileSystemConfig_def NewFilesystemServer_config_def TrimSpace_Nil
      allowedDirsDefault_def Let_def)

text \<open>
  Claim C4. The claim: every path that goes through a symbolic link inside an allowed
  root whose target lies outside all allowed roots is rejected as
  \<open>SymlinkEscapesRoot\<close>. In the sample, \<^verbatim>\<open>/tmp/root/dangling\<close> is a link inside the allowed
  root \<^verbatim>\<open>/tmp/root/\<close> whose target \<^verbatim>\<open>/etc/evil\<close> lies outside it and does not exist. The
  path passes the first membership test, \<^verbatim>\<open>EvalSymlinks\<close> reports a not-exist error, the
  branch for new files finds the parent \<^verbatim>\<open>/tmp/root\<close> inside the root, and the path is
  approved as it is written: the real path is never tested.
\<close>

theorem dangling_link_is_approved:
  "map_of demoTree [''tmp'', ''root'', ''dangling''] = Some (LinkNode ''/etc/evil'') \<and>
   \<not> HasPrefix ''/etc/evil/'' ''/tmp/root/'' \<and>
   isPathInAllowedDirs demoOS demoConfig ''/tmp/root/dangling'' \<and>
   (case EvalSymlinks demoOS ''/tmp/root/dangling'' of
      Inl err \<Rightarrow> IsNotExist err
    | Inr real \<Rightarrow> False) \<and>
   EvalSymlinks demoOS (Dir ''/tmp/root/dangling'') = Inr ''/tmp/root'' \<and>
   validatePath demoOS demoConfig ''/tmp/root/dangling'' = Inr ''/tmp/root/dangling''"
  by code_simp

text \<open>
  What the code does reject. A path through the link \<^verbatim>\<open>/tmp/root/link\<close> (to \<^verbatim>\<open>/etc\<close>) whose
  last element does not exist is rejected by the branch for new files, as
  \<open>ParentOutsideAllowedRoots\<close>.
\<close>

theorem path_through_link_to_new_file:
  "isPathInAllowedDirs demoOS demoConfig ''/tmp/root/link/new'' \<and>
   EvalSymlinks demoOS ''/tmp/root/link'' = Inr ''/etc'' \<and>
   \<not> isPathInAllowedDirs demoOS demoConfig ''/etc'' \<and>
   validatePath demoOS demoConfig ''/tmp/root/link/new'' = Inl ParentOutsideAllowedRoots"
  by code_simp

text \<open>
  And when the absolute path passes the membership test, the symbolic links along it
  resolve (the target exists), and the resolved real path fails the membership test,
  the path is rejected as \<open>SymlinkEscapesRoot\<close>.
\<close>

theorem resolved_path_outside_is_rejected:
  assumes "Abs env requestedPath = Inr absPath"
    and "isPathInAllowedDirs env config absPath"
    and "EvalSymlinks env absPath = Inr realPath"
    and "\<not> isPathInAllowedDirs env config realPath"
  shows "validatePath env config requestedPath = Inl SymlinkEscapesRoot"
  using assms by (simp add: validatePath_def)

text \<open>
  So it is at the path \<^verbatim>\<open>/tmp/root/link/passwd\<close> of the sample, which resolves to
  \<^verbatim>\<open>/etc/passwd\<close>.
\<close>

theorem resolved_path_outside_is_rejected_witness:
  "Abs demoOS ''/tmp/root/link/passwd'' = Inr ''/tmp/root/link/passwd'' \<and>
   isPathInAllowedDirs demoOS demoConfig ''/tmp/root/link/passwd'' \<and>
   EvalSymlinks demoOS ''/tmp/root/link/passwd'' = Inr ''/etc/passwd'' \<and>
   \<not> isPathInAllowedDirs demoOS demoConfig ''/etc/passwd'' \<and>
   validatePath demoOS demoConfig ''/tmp/root/link/passwd'' = Inl SymlinkEscapesRoot"
proof -
  have h1: "Abs demoOS ''/tmp/root/link/passwd'' = Inr ''/tmp/root/link/passwd''"
    by code_simp
  have h2: "isPathInAllowedDirs demoOS demoConfig ''/tmp/root/link/passwd''"
    by code_simp
  have h3: "EvalSymlinks demoOS ''/tmp/root/link/passwd'' = Inr ''/etc/passwd''"
    by code_simp
  have h4: "\<not> isPathInAllowedDirs demoOS demoConfig ''/etc/passwd''"
    by code_simp
  from resolved_path_outside_is_rejected [OF h1 h2 h3 h4] h1 h2 h3 h4
  show ?thesis by simp
qed

text \<open>
  Claim C7, as stated: a path whose target does not exist is approved when its
  symlink-resolved parent is inside an allowed root. In the sample,
  \<^verbatim>\<open>/outside/in/new.txt\<close> does not exist and its parent resolves to the allowed root
  \<^verbatim>\<open>/tmp/root\<close>, yet the path is rejected as \<open>OutsideAllowedRoots\<close>: the membership
  test on the path as written comes first.
\<close>

theorem new_file_outside_as_written:
  "(case EvalSymlinks demoOS ''/outside/in/new.txt'' of
      Inl err \<Rightarrow> IsNotExist err
    | Inr real \<Rightarrow> False) \<and>
   EvalSymlinks demoOS (Dir ''/outside/in/new.txt'') = Inr ''/tmp/root'' \<and>
   isPathInAllowedDirs demoOS demoConfig ''/tmp/root'' \<and>
   validatePath demoOS demoConfig ''/outside/in/new.txt'' =
     Inl (OutsideAllowedRoots ''/outside/in/new.txt'')"
  by code_simp

text \<open>
  Claim C7, amended: for a path whose absolute form passes the membership test and
  whose target does not exist (\<^verbatim>\<open>EvalSymlinks\<close> reports a not-exist error), the result is
  \<open>ParentMissing\<close> when the parent directory cannot be resolved, the absolute path
  itself when the resolved parent passes the membership test, and
  \<open>ParentOutsideAllowedRoots\<close> when it does not.
\<close>

theorem new_file_case:
  assumes "Abs env requestedPath = Inr absPath"
    and "isPathInAllowedDirs env config absPath"
    and "EvalSymlinks env absPath = Inl err"
    and "IsNotExist err"
  shows "validatePath env config requestedPath =
     (case EvalSymlinks env (Dir absPath) of
        Inl err1 \<Rightarrow> Inl (ParentMissing (Dir absPath))
      | Inr realParent \<Rightarrow>
          if isPathInAllowedDirs env config realParent then Inr absPath
          else Inl ParentOutsideAllowedRoots)"
  using assms by (simp add: validatePath_def Let_def split: sum.splits)

text \<open>
  Claim C7, amended, at three paths of the sample that do not exist: one directly in
  the root, one behind the link to \<^verbatim>\<open>/etc\<close>, one in a directory that does not exist.
\<close>

theorem new_file_case_witness:
  "validatePath demoOS demoConfig ''/tmp/root/new.txt'' = Inr ''/tmp/root/new.txt'' \<and>
   validatePath demoOS demoConfig ''/tmp/root/link/new.txt'' = Inl ParentOutsideAllowedRoots \<and>
   validatePath demoOS demoConfig ''/tmp/root/missing/new.txt'' = Inl (ParentMissing ''/tmp/root/missing'')"
proof -
  have a1: "Abs demoOS ''/tmp/root/new.txt'' = Inr ''/tmp/root/new.txt''" by code_simp
  have a2: "isPathInAllowedDirs demoOS demoConfig ''/tmp/root/new.txt''" by code_simp
  have a3: "EvalSymlinks demoOS ''/tmp/root/new.txt'' =
      Inl (OSError True ''lstat /tmp/root/new.txt: no such file or directory'')" by code_simp
  have a4: "IsNotExist (OSError True ''lstat /tmp/root/new.txt: no such file or directory'')" by simp
  have a5: "(case EvalSymlinks demoOS (Dir ''/tmp/root/new.txt'') of
        Inl err1 \<Rightarrow> Inl (ParentMissing (Dir ''/tmp/root/new.txt''))
      | Inr realParent \<Rightarrow>
          if isPathInAllowedDirs demoOS demoConfig realParent then Inr ''/tmp/root/new.txt''
          else Inl ParentOutsideAllowedRoots) = Inr ''/tmp/root/new.txt''" by code_simp
  have b1: "Abs demoOS ''/tmp/root/link/new.txt'' = Inr ''/tmp/root/link/new.txt''" by code_simp
  have b2: "isPathInAllowedDirs demoOS demoConfig ''/tmp/root/link/new.txt''" by code_simp
  have b3: "EvalSymlinks demoOS ''/tmp/root/link/new.txt'' =
      Inl (OSError True ''lstat /etc/new.txt: no such file or directory'')" by code_simp
  have b4: "IsNotExist (OSError True ''lstat /etc/new.txt: no such file or directory'')" by simp
  have b5: "(case EvalSymlinks demoOS (Dir ''/tmp/root/link/new.txt'') of
        Inl err1 \<Rightarrow> Inl (ParentMissing (Dir ''/tmp/root/link/new.txt''))
      | Inr realParent \<Rightarrow>
          if isPathInAllowedDirs demoOS demoConfig realParent then Inr ''/tmp/root/link/new.txt''
          else Inl ParentOutsideAllowedRoots) = Inl ParentOutsideAllowedRoots" by code_simp
  have c1: "Abs demoOS ''/tmp/root/missing/new.txt'' = Inr ''/tmp/root/missing/new.txt''" by code_simp
  have c2: "isPathInAllowedDirs demoOS demoConfig ''/tmp/root/missing/new.txt''" by code_simp
  have c3: "EvalSymlinks demoOS ''/tmp/root/missing/new.txt'' =
      Inl (OSError True ''lstat /tmp/root/missing: no such file or directory'')" by code_simp
  have c4: "IsNotExist (OSError True ''lstat /tmp/root/missing: no such file or directory'')" by simp
  have c5: "(case EvalSymlinks demoOS (Dir ''/tmp/root/missing/new.txt'') of
        Inl err1 \<Rightarrow> Inl (ParentMissing (Dir ''/tmp/root/missing/new.txt''))
      | Inr realParent \<Rightarrow>
          if isPathInAllowedDirs demoOS demoConfig realParent then Inr ''/tmp/root/missing/new.txt''
          else Inl ParentOutsideAllowedRoots) = Inl (ParentMissing ''/tmp/root/missing'')" by code_simp
  show ?thesis
    using new_file_case [OF a1 a2 a3 a4] new_file_case [OF b1 b2 b3 b4]
      new_file_case [OF c1 c2 c3 c4]
    unfolding a5 b5 c5 by simp
qed

text \<open>
  Claim C8, as stated: every path whose resolved real path lies under an allowed root
  is approved. In the sample, \<^verbatim>\<open>/outside/in/file.txt\<close> resolves to
  \<^verbatim>\<open>/tmp/root/file.txt\<close>, which lies under the root \<^verbatim>\<open>/tmp/root/\<close> and passes the
  membership test, and the path is rejected as \<open>OutsideAllowedRoots\<close>.
\<close>

theorem real_path_inside_is_not_enough:
  "EvalSymlinks demoOS ''/outside/in/file.txt'' = Inr ''/tmp/root/file.txt'' \<and>
   HasPrefix ''/tmp/root/file.txt'' ''/tmp/root/'' \<and>
   isPathInAllowedDirs demoOS demoConfig ''/tmp/root/file.txt'' \<and>
   validatePath demoOS demoConfig ''/outside/in/file.txt'' =
     Inl (OutsideAllowedRoots ''/outside/in/file.txt'')"
  by code_simp

text \<open>
  Claim C8, amended: when the absolute path passes the membership test and resolves
  to a real path \<open>c\<close> that passes it too, the path is approved with \<open>c\<close>; and when \<open>c\<close> is
  canonical (\<^verbatim>\<open>filepath.Abs\<close> leaves it as it is and it resolves to itself), validating
  \<open>c\<close> again gives \<open>c\<close>.
\<close>

theorem validatePath_idempotent:
  assumes "Abs env p = Inr absPath"
    and "isPathInAllowedDirs env config absPath"
    and "EvalSymlinks env absPath = Inr c"
    and "isPathInAllowedDirs env config c"
    and "Abs env c = Inr c"
    and "EvalSymlinks env c = Inr c"
  shows "validatePath env config p = Inr c \<and> validatePath env config c = Inr c"
  using assms by (simp add: validatePath_def)

text \<open>
  Claim C8, amended, at the link \<^verbatim>\<open>/tmp/root/alias\<close> of the sample, which resolves to
  \<^verbatim>\<open>/tmp/root/file.txt\<close>.
\<close>

theorem validatePath_idempotent_witness:
  "Abs demoOS ''/tmp/root/alias'' = Inr ''/tmp/root/alias'' \<and>
   isPathInAllowedDirs demoOS demoConfig ''/tmp/root/alias'' \<and>
   EvalSymlinks demoOS ''/tmp/root/alias'' = Inr ''/tmp/root/file.txt'' \<and>
   isPathInAllowedDirs demoOS demoConfig ''/tmp/root/file.txt'' \<and>
   Abs demoOS ''/tmp/root/file.txt'' = Inr ''/tmp/root/file.txt'' \<and>
   EvalSymlinks demoOS ''/tmp/root/file.txt'' = Inr ''/tmp/root/file.txt'' \<and>
   validatePath demoOS demoConfig ''/tmp/root/alias'' = Inr ''/tmp/root/file.txt'' \<and>
   validatePath demoOS demoConfig ''/tmp/root/file.txt'' = Inr ''/tmp/root/file.txt''"
proof -
  have h1: "Abs demoOS ''/tmp/root/alias'' = Inr ''/tmp/root/alias''" by code_simp
  have h2: "isPathInAllowedDirs demoOS demoConfig ''/tmp/root/alias''" by code_simp
  have h3: "EvalSymlinks demoOS ''/tmp/root/alias'' = Inr ''/tmp/root/file.txt''" by code_simp
  have h4: "isPathInAllowedDirs demoOS demoConfig ''/tmp/root/file.txt''" by code_simp
  have h5: "Abs demoOS ''/tmp/root/file.txt'' = Inr ''/tmp/root/file.txt''" by code_simp
  have h6: "EvalSymlinks demoOS ''/tmp/root/file.txt'' = Inr ''/tmp/root/file.txt''" by code_simp
  from validatePath_idempotent [OF h1 h2 h3 h4 h5 h6] h1 h2 h3 h4 h5 h6
  show ?thesis by simp
qed

text \<open>
  Claim C5, as stated: at load time every allowed root is canonicalized, with symbolic
  links resolved and a trailing separator appended. In the sample, \<^verbatim>\<open>/outside/in\<close> is a
  link to \<^verbatim>\<open>/tmp/root\<close>; \<^verbatim>\<open>Check\<close> accepts it as an allowed directory and stores
  \<^verbatim>\<open>/outside/in/\<close>, the link itself with a separator.
\<close>

theorem roots_not_resolved:
  "FileSystemConfig_Check demoOS [] (demoConfig\<lparr>allowedDirs := [''/outside/in'']\<rparr>) =
     Inr (demoConfig\<lparr>allowedDirs := [''/outside/in/'']\<rparr>) \<and>
   EvalSymlinks demoOS ''/outside/in'' = Inr ''/tmp/root''"
  by code_simp


text \<open>
  Claim C5, amended: when \<^verbatim>\<open>Check\<close> succeeds, the allowed roots are, entry by entry and
  in order, the configured directories made absolute (after trimming white space),
  lexically cleaned and given a trailing separator; and for every entry \<^verbatim>\<open>os.Stat\<close>
  succeeded on the absolute path and found a directory. So a configured entry that
  cannot be made absolute, does not exist or is not a directory makes \<^verbatim>\<open>Check\<close> fail.
  Symbolic links are not resolved.
\<close>

theorem Check_normalizes_roots:
  assumes "FileSystemConfig_Check env FileSystemPromptDefault fc = Inr fc1"
  shows "list_all2 (\<lambda>dir root. \<exists>absPath info.
           Abs env (TrimSpace dir) = Inr absPath \<and> Stat env absPath = Inr info \<and>
           IsDir info \<and> root = Clean absPath @ ''/'') (allowedDirs fc) (allowedDirs fc1)"
proof -
  from assms obtain normalized where n: "normalizeDirs env [] (allowedDirs fc) = Inr normalized"
    by (cases "normalizeDirs env [] (allowedDirs fc)") (auto simp: FileSystemConfig_Check_def)
  from assms n have "allowedDirs fc1 = normalized"
    by (auto simp: FileSystemConfig_Check_def Let_def split: if_splits sum.splits)
  with normalizeDirs_Inr [OF n] show ?thesis by simp
qed


text \<open>
  Claim C5, amended, at the configured directories \<^verbatim>\<open>/tmp/root/../root\<close> and
  \<^verbatim>\<open>/outside/in\<close> (with blanks around it) of the sample.
\<close>

theorem Check_normalizes_roots_witness:
  "FileSystemConfig_Check demoOS [] (demoConfig\<lparr>allowedDirs := [''/tmp/root/../root'', '' /outside/in '']\<rparr>) =
     Inr (demoConfig\<lparr>allowedDirs := [''/tmp/root/'', ''/outside/in/'']\<rparr>) \<and>
   list_all2 (\<lambda>dir root. \<exists>absPath info.
           Abs demoOS (TrimSpace dir) = Inr absPath \<and> Stat demoOS absPath = Inr info \<and>
           IsDir info \<and> root = Clean absPath @ ''/'')
     [''/tmp/root/../root'', '' /outside/in ''] [''/tmp/root/'', ''/outside/in/'']"
proof -
  have h: "FileSystemConfig_Check demoOS [] (demoConfig\<lparr>allowedDirs := [''/tmp/root/../root'', '' /outside/in '']\<rparr>) =
     Inr (demoConfig\<lparr>allowedDirs := [''/tmp/root/'', ''/outside/in/'']\<rparr>)"
    by code_simp
  from Check_normalizes_roots [OF h] h show ?thesis by simp
qed


text \<open>
  Claim C6. A path is outside an allowed root when the root is not a prefix of the
  absolute path terminated by a separator. When the absolute path of the request is
  outside every allowed root, the request is rejected as \<open>OutsideAllowedRoots\<close>, whatever
  the filesystem holds. The root directory itself is stored as \<^verbatim>\<open>//\<close> by \<^verbatim>\<open>Check\<close>; no
  path is outside the root directory, so that root is excluded.
\<close>

theorem path_outside_roots_is_rejected:
  assumes "Abs env p = Inr absPath"
    and "IsAbs absPath"
    and "''//'' \<notin> set (allowedDirs config)"
    and "\<forall>root \<in> set (allowedDirs config).
       \<not> HasPrefix (if HasSuffix absPath ''/'' then absPath else absPath @ ''/'') root"
  shows "validatePath env config p = Inl (OutsideAllowedRoots absPath)"
proof -
  from Abs_form [OF assms(1,2)] obtain es where es: "list_all properElem es" "absPath = elemsPath es"
    by blast
  have "\<not> isPathInAllowedDirs env config absPath"
    unfolding es(2) using es(1) assms(3) assms(4) [unfolded es(2)] by (rule outside_not_in_allowed)
  with assms(1) show ?thesis by (simp add: validatePath_def)
qed

text \<open>
  Claim C6 at the allowed root \<^verbatim>\<open>/tmp/foo/\<close> and the sibling path \<^verbatim>\<open>/tmp/foobar/x\<close>, of
  which \<^verbatim>\<open>/tmp/foo\<close> is a prefix as a string: the path is rejected on every operating
  system.
\<close>

theorem path_outside_roots_is_rejected_witness:
  "HasPrefix ''/tmp/foobar/x'' ''/tmp/foo'' \<and>
   (\<forall>env. validatePath env fooConfig ''/tmp/foobar/x'' =
      Inl (OutsideAllowedRoots ''/tmp/foobar/x''))"
proof -
  have c: "Clean ''/tmp/foobar/x'' = ''/tmp/foobar/x''" by code_simp
  have a: "IsAbs ''/tmp/foobar/x''" by code_simp
  have h1: "Abs env ''/tmp/foobar/x'' = Inr ''/tmp/foobar/x''" for env
    using a c by (simp add: Abs_def)
  have h3: "''//'' \<notin> set (allowedDirs fooConfig)" by (simp add: fooConfig_def)
  have s: "\<not> HasSuffix ''/tmp/foobar/x'' ''/''" by code_simp
  have p: "\<not> HasPrefix (''/tmp/foobar/x'' @ ''/'') ''/tmp/foo/''" by code_simp
  have h4: "\<forall>root \<in> set (allowedDirs fooConfig).
       \<not> HasPrefix (if HasSuffix ''/tmp/foobar/x'' ''/'' then ''/tmp/foobar/x''
                      else ''/tmp/foobar/x'' @ ''/'') root"
    using s p by (simp add: fooConfig_def)
  have r: "HasPrefix ''/tmp/foobar/x'' ''/tmp/foo''" by code_simp
  show ?thesis
    using path_outside_roots_is_rejected [OF h1 a h3 h4] r by blast
qed

section \<open>Claims about the tool handlers\<close>

text \<open>
  Claim C9. On a deny decision a handler performs none of the requested operations
  and returns an error result: whatever the calls that change the machine would do,
  the state after the handler is the state before it. For a command that is not
  allowed, the result is the error text of \<^verbatim>\<open>handleExecuteCommand\<close> and no process is
  spawned; for a path that \<^verbatim>\<open>validatePath\<close> rejects, \<^verbatim>\<open>handleWriteFile\<close> returns the
  rejection as an error text and writes nothing, \<^verbatim>\<open>handleCreateDirectory\<close> creates
  nothing, and \<^verbatim>\<open>handleMoveFile\<close> moves nothing when the source or the destination is
  rejected.
\<close>

theorem denied_requests_leave_the_system_untouched:
  "(args ''command'' = Some (JString command) \<and>
      \<not> isAllowedCommand (allowedCommands cc) command \<longrightarrow>
      handleExecuteCommand sys cc args w =
        (NewToolResultError
           (''Error: Command '' @ [CHR 0x27] @ command @ [CHR 0x27] @ '' is not allowed''), w)) \<and>
   (args ''path'' = Some (JString path) \<and> args ''content'' = Some (JString content) \<and>
      validatePath (view sys w) fc (Join [CachePath fc, path]) = Inl err \<longrightarrow>
      handleWriteFile sys fc args w =
        (\<lparr>Content = [TextContent (''Error: '' @ Error err)], IsError = True\<rparr>, w)) \<and>
   (args ''path'' = Some (JString path) \<and> validatePath (view sys w) fc path = Inl err \<longrightarrow>
      snd (handleCreateDirectory sys fc args w) = w \<and>
      IsError (fst (handleCreateDirectory sys fc args w))) \<and>
   (args ''source'' = Some (JString source) \<and>
      args ''destination'' = Some (JString destination) \<and>
      (validatePath (view sys w) fc source = Inl err \<or>
       validatePath (view sys w) fc destination = Inl err) \<longrightarrow>
      snd (handleMoveFile sys fc args w) = w \<and>
      IsError (fst (handleMoveFile sys fc args w)))"
proof (intro conjI impI)
  assume "args ''command'' = Some (JString command) \<and>
      \<not> isAllowedCommand (allowedCommands cc) command"
  then show "handleExecuteCommand sys cc args w =
        (NewToolResultError
           (''Error: Command '' @ [CHR 0x27] @ command @ [CHR 0x27] @ '' is not allowed''), w)"
    by (simp add: handleExecuteCommand_def)
next
  assume "args ''path'' = Some (JString path) \<and> args ''content'' = Some (JString content) \<and>
      validatePath (view sys w) fc (Join [CachePath fc, path]) = Inl err"
  then show "handleWriteFile sys fc args w =
        (\<lparr>Content = [TextContent (''Error: '' @ Error err)], IsError = True\<rparr>, w)"
    by (simp add: handleWriteFile_def Let_def del: Join.simps)
next
  assume a: "args ''path'' = Some (JString path) \<and> validatePath (view sys w) fc path = Inl err"
  then show "snd (handleCreateDirectory sys fc args w) = w"
    by (simp add: handleCreateDirectory_def)
  from a show "IsError (fst (handleCreateDirectory sys fc args w))"
    by (simp add: handleCreateDirectory_def CallToolResultErr_def)
next
  assume a: "args ''source'' = Some (JString source) \<and>
      args ''destination'' = Some (JString destination) \<and>
      (validatePath (view sys w) fc source = Inl err \<or>
       validatePath (view sys w) fc destination = Inl err)"
  then show "snd (handleMoveFile sys fc args w) = w"
    by (auto simp: handleMoveFile_def split: sum.splits)
  from a show "IsError (fst (handleMoveFile sys fc args w))"
    by (auto simp: handleMoveFile_def CallToolResultErr_def split: sum.splits)
qed

text \<open>
  Claim C9 in the sample: the command \<^verbatim>\<open>rm -rf /\<close> with only \<^verbatim>\<open>ls\<close> allowed, writing
  \<^verbatim>\<open>../../etc/passwd\<close>, creating \<^verbatim>\<open>/etc/newdir\<close>, and moving a file of the root to \<^verbatim>\<open>/etc\<close>.
\<close>

theorem denied_requests_leave_the_system_untouched_witness:
  "handleExecuteCommand demoSys lsOnly [''command'' \<mapsto> JString ''rm -rf /''] demoWorld =
     (NewToolResultError (''Error: Command '' @ [CHR 0x27] @ ''rm -rf /'' @ [CHR 0x27] @ '' is not allowed''), demoWorld) \<and>
   handleWriteFile demoSys demoConfig
       [''path'' \<mapsto> JString ''../../etc/passwd'', ''content'' \<mapsto> JString ''x''] demoWorld =
     (\<lparr>Content = [TextContent (''Error: '' @ Error (OutsideAllowedRoots ''/etc/passwd''))],
        IsError = True\<rparr>, demoWorld) \<and>
   snd (handleCreateDirectory demoSys demoConfig [''path'' \<mapsto> JString ''/etc/newdir''] demoWorld)
     = demoWorld \<and>
   snd (handleMoveFile demoSys demoConfig
         [''source'' \<mapsto> JString ''/tmp/root/file.txt'',
          ''destination'' \<mapsto> JString ''/etc/file.txt''] demoWorld) = demoWorld"
proof -
  have x1: "[''command'' \<mapsto> JString ''rm -rf /''] ''command'' = Some (JString ''rm -rf /'') \<and>
      \<not> isAllowedCommand (allowedCommands lsOnly) ''rm -rf /''"
    by code_simp
  have x2: "[''path'' \<mapsto> JString ''../../etc/passwd'', ''content'' \<mapsto> JString ''x''] ''path''
        = Some (JString ''../../etc/passwd'') \<and>
      [''path'' \<mapsto> JString ''../../etc/passwd'', ''content'' \<mapsto> JString ''x''] ''content''
        = Some (JString ''x'') \<and>
      validatePath (view demoSys demoWorld) demoConfig
        (Join [CachePath demoConfig, ''../../etc/passwd'']) = Inl (OutsideAllowedRoots ''/etc/passwd'')"
    by code_simp
  have x3: "[''path'' \<mapsto> JString ''/etc/newdir''] ''path'' = Some (JString ''/etc/newdir'') \<and>
      validatePath (view demoSys demoWorld) demoConfig ''/etc/newdir''
        = Inl (OutsideAllowedRoots ''/etc/newdir'')"
    by code_simp
  have x4: "[''source'' \<mapsto> JString ''/tmp/root/file.txt'',
          ''destination'' \<mapsto> JString ''/etc/file.txt''] ''source'' = Some (JString ''/tmp/root/file.txt'') \<and>
      [''source'' \<mapsto> JString ''/tmp/root/file.txt'',
          ''destination'' \<mapsto> JString ''/etc/file.txt''] ''destination'' = Some (JString ''/etc/file.txt'') \<and>
      (validatePath (view demoSys demoWorld) demoConfig ''/tmp/root/file.txt''
          = Inl (OutsideAllowedRoots ''/etc/file.txt'') \<or>
       validatePath (view demoSys demoWorld) demoConfig ''/etc/file.txt''
          = Inl (OutsideAllowedRoots ''/etc/file.txt''))"
    by code_simp
  have r1: "handleExecuteCommand demoSys lsOnly [''command'' \<mapsto> JString ''rm -rf /''] demoWorld =
     (NewToolResultError (''Error: Command '' @ [CHR 0x27] @ ''rm -rf /'' @ [CHR 0x27] @ '' is not allowed''), demoWorld)"
    using denied_requests_leave_the_system_untouched [where args = "[''command'' \<mapsto> JString ''rm -rf /'']" and command = "''rm -rf /''"
        and cc = lsOnly and sys = demoSys and w = demoWorld, THEN conjunct1] x1
    by blast
  have r2: "handleWriteFile demoSys demoConfig
       [''path'' \<mapsto> JString ''../../etc/passwd'', ''content'' \<mapsto> JString ''x''] demoWorld =
     (\<lparr>Content = [TextContent (''Error: '' @ Error (OutsideAllowedRoots ''/etc/passwd''))],
        IsError = True\<rparr>, demoWorld)"
    using denied_requests_leave_the_system_untouched [where args = "[''path'' \<mapsto> JString ''../../etc/passwd'', ''content'' \<mapsto> JString ''x'']"
        and path = "''../../etc/passwd''" and content = "''x''" and fc = demoConfig
        and err = "OutsideAllowedRoots ''/etc/passwd''" and sys = demoSys and w = demoWorld,
        THEN conjunct2, THEN conjunct1] x2
    by blast
  have r3: "snd (handleCreateDirectory demoSys demoConfig [''path'' \<mapsto> JString ''/etc/newdir''] demoWorld)
     = demoWorld"
    using denied_requests_leave_the_system_untouched [where args = "[''path'' \<mapsto> JString ''/etc/newdir'']"
        and path = "''/etc/newdir''" and fc = demoConfig
        and err = "OutsideAllowedRoots ''/etc/newdir''" and sys = demoSys and w = demoWorld,
        THEN conjunct2, THEN conjunct2, THEN conjunct1] x3
    by blast
  have r4: "snd (handleMoveFile demoSys demoConfig
         [''source'' \<mapsto> JString ''/tmp/root/file.txt'',
          ''destination'' \<mapsto> JString ''/etc/file.txt''] demoWorld) = demoWorld"
    using denied_requests_leave_the_system_untouched [where args = "[''source'' \<mapsto> JString ''/tmp/root/file.txt'',
          ''destination'' \<mapsto> JString ''/etc/file.txt'']"
        and source = "''/tmp/root/file.txt''" and destination = "''/etc/file.txt''" and fc = demoConfig
        and err = "OutsideAllowedRoots ''/etc/file.txt''" and sys = demoSys and w = demoWorld,
        THEN conjunct2, THEN conjunct2, THEN conjunct2] x4
    by blast
  from r1 r2 r3 r4
  show ?thesis by simp
qed

text \<open>
  For contrast, requests that are approved do change the sample: the allowed command
  is spawned, and the file is written.
\<close>

lemma approved_command_is_spawned:
  "spawned (snd (handleExecuteCommand demoSys lsOnly
      [''command'' \<mapsto> JString ''ls -l''] demoWorld)) = [''ls -l'']"
  by code_simp

lemma approved_write_is_performed:
  "map_of (files (snd (handleWriteFile demoSys demoConfig
      [''path'' \<mapsto> JString ''new.txt'', ''content'' \<mapsto> JString ''hello''] demoWorld)))
     [''tmp'', ''root'', ''new.txt''] = Some (FileNode 5)"
  by code_simp

end
